theory Spec2Isabelle
  imports Complex_Main "HOL-Library.AList"
begin

section \<open>Stocksight: the forecasting services and controllers\<close>

text \<open>
  The development embeds \<^verbatim>\<open>server/services/forecastService.js\<close> (class
  \<^verbatim>\<open>ForecastService\<close>), the grouping step of \<^verbatim>\<open>TrendWiseService.fetchSalesDataFromDB\<close>
  and \<^verbatim>\<open>server/controllers/forecastController.js\<close>.

  Conventions of the embedding:
  \<^item> a calendar date (the SQL \<^verbatim>\<open>date\<close> column \<^verbatim>\<open>sale_date\<close>, which JavaScript
    sees as the string \<^verbatim>\<open>YYYY-MM-DD\<close>) is its day number, an \<^typ>\<open>int\<close>; equal strings
    are equal days and \<^verbatim>\<open>new Date(a) - new Date(b)\<close> orders them as the day numbers;
  \<^item> \<^verbatim>\<open>quantity_sold\<close> is an SQL \<^verbatim>\<open>integer\<close>, an \<^typ>\<open>int\<close>; sums of such values are
    exact in JavaScript's doubles below \<open>2^53\<close>, which is assumed throughout.
\<close>

subsection \<open>Sales records and daily aggregation\<close>

type_synonym date = int

record sale =
  sale_date :: date
  quantity_sold :: int

text \<open>
  A JavaScript \<^verbatim>\<open>Map\<close> keeps its keys in insertion order: \<^verbatim>\<open>set\<close> on a present key
  replaces the value in place and on a new key appends. That is \<^const>\<open>AList.update\<close> on an
  association list; \<^verbatim>\<open>has\<close> and \<^verbatim>\<open>get\<close> are \<^const>\<open>map_of\<close>.
\<close>

text \<open>The body of the \<^verbatim>\<open>forEach\<close> callback of \<^verbatim>\<open>aggregateDailySales\<close>.\<close>

definition addSale :: "sale \<Rightarrow> (date \<times> int) list \<Rightarrow> (date \<times> int) list" where
  "addSale s dailyMap =
     (let d = sale_date s;
          m1 = (if map_of dailyMap d = None then AList.update d 0 dailyMap else dailyMap)
      in case map_of m1 d of
           Some cur \<Rightarrow> AList.update d (cur + quantity_sold s) m1
         | None \<Rightarrow> m1)"

text \<open>
  \<^verbatim>\<open>aggregateDailySales\<close>: fill the map record by record, then turn the entries into an
  array sorted by date (the sort of ECMAScript is stable; the keys are distinct anyway).
\<close>

definition aggregateDailySales :: "sale list \<Rightarrow> (date \<times> int) list" where
  "aggregateDailySales salesData = sort_key fst (fold addSale salesData [])"

text \<open>
  The grouping in \<^verbatim>\<open>TrendWiseService.fetchSalesDataFromDB\<close>:
  \<^verbatim>\<open>dailySales[date] = (dailySales[date] || 0) + sale.quantity_sold\<close> on a plain object,
  whose date-string keys are enumerated by \<^verbatim>\<open>Object.entries\<close> in insertion order.
  \<^verbatim>\<open>x || 0\<close> is \<open>0\<close> for a missing key and for the number \<open>0\<close>, and \<open>x\<close> otherwise.
\<close>

definition groupSale :: "sale \<Rightarrow> (date \<times> int) list \<Rightarrow> (date \<times> int) list" where
  "groupSale s dailySales =
     (let d = sale_date s;
          cur = (case map_of dailySales d of None \<Rightarrow> 0 | Some v \<Rightarrow> if v = 0 then 0 else v)
      in AList.update d (cur + quantity_sold s) dailySales)"

definition groupSalesByDate :: "sale list \<Rightarrow> (date \<times> int) list" where
  "groupSalesByDate sales = fold groupSale sales []"

text \<open>The sum of the quantities of the records of one date.\<close>

definition soldOn :: "date \<Rightarrow> sale list \<Rightarrow> int" where
  "soldOn d salesData = sum_list (map quantity_sold (filter (\<lambda>s. sale_date s = d) salesData))"

subsection \<open>JavaScript numbers\<close>

text \<open>
  A JavaScript number is a finite value, \<^verbatim>\<open>Infinity\<close>, \<^verbatim>\<open>-Infinity\<close> or \<^verbatim>\<open>NaN\<close>. Finite
  values are modelled as reals: the rounding error and the overflow of doubles are not
  modelled, and neither is the sign of zero (every zero is \<^verbatim>\<open>+0\<close>). Division by zero
  and the propagation of \<^verbatim>\<open>NaN\<close> are the ones of IEEE 754.

  Consequence of the exact reals: where the exact value of an expression lies on a
  rounding boundary of \<^verbatim>\<open>Math.round\<close> or \<^verbatim>\<open>toFixed\<close>, the doubles of the code can fall
  on the other side and the rounded result differ by one unit. The moving average of a
  series of constant 100 with the draw 0.75 is such a case: the reals give 102.5 and 103,
  the doubles 102.49999999999999 and 102. The statements of this theory are therefore
  about values that are the same in doubles (whole numbers below \<open>2^53\<close>, \<^verbatim>\<open>NaN\<close>,
  results away from a boundary), or leave a slack of one unit around a rounded value.
\<close>

datatype jsnum = Num real | PInf | NInf | NaN

fun js_neg :: "jsnum \<Rightarrow> jsnum" where
  "js_neg (Num a) = Num (- a)"
| "js_neg PInf = NInf"
| "js_neg NInf = PInf"
| "js_neg NaN = NaN"

fun js_add :: "jsnum \<Rightarrow> jsnum \<Rightarrow> jsnum" where
  "js_add NaN y = NaN"
| "js_add x NaN = NaN"
| "js_add (Num a) (Num b) = Num (a + b)"
| "js_add PInf NInf = NaN"
| "js_add NInf PInf = NaN"
| "js_add PInf y = PInf"
| "js_add NInf y = NInf"
| "js_add (Num a) y = y"

definition js_sub :: "jsnum \<Rightarrow> jsnum \<Rightarrow> jsnum" where
  "js_sub x y = js_add x (js_neg y)"

fun js_mul :: "jsnum \<Rightarrow> jsnum \<Rightarrow> jsnum" where
  "js_mul NaN y = NaN"
| "js_mul x NaN = NaN"
| "js_mul (Num a) (Num b) = Num (a * b)"
| "js_mul (Num a) y = (if a = 0 then NaN else if 0 < a then y else js_neg y)"
| "js_mul x (Num b) = (if b = 0 then NaN else if 0 < b then x else js_neg x)"
| "js_mul PInf y = y"
| "js_mul NInf y = js_neg y"

fun js_div :: "jsnum \<Rightarrow> jsnum \<Rightarrow> jsnum" where
  "js_div NaN y = NaN"
| "js_div x NaN = NaN"
| "js_div (Num a) (Num b) =
     (if b \<noteq> 0 then Num (a / b)
      else if a = 0 then NaN
      else if 0 < a then PInf else NInf)"
| "js_div (Num a) y = Num 0"
| "js_div x (Num b) = (if 0 \<le> b then x else js_neg x)"
| "js_div x y = NaN"

text \<open>\<^verbatim>\<open>Math.max\<close> and \<^verbatim>\<open>Math.min\<close> return \<^verbatim>\<open>NaN\<close> as soon as one argument is \<^verbatim>\<open>NaN\<close>.\<close>

fun js_max :: "jsnum \<Rightarrow> jsnum \<Rightarrow> jsnum" where
  "js_max NaN y = NaN"
| "js_max x NaN = NaN"
| "js_max PInf y = PInf"
| "js_max x PInf = PInf"
| "js_max NInf y = y"
| "js_max x NInf = x"
| "js_max (Num a) (Num b) = Num (max a b)"

fun js_min :: "jsnum \<Rightarrow> jsnum \<Rightarrow> jsnum" where
  "js_min NaN y = NaN"
| "js_min x NaN = NaN"
| "js_min NInf y = NInf"
| "js_min x NInf = NInf"
| "js_min PInf y = y"
| "js_min x PInf = x"
| "js_min (Num a) (Num b) = Num (min a b)"

text \<open>\<^verbatim>\<open>Math.round\<close> rounds to the nearest integer, a half upwards.\<close>

fun js_round :: "jsnum \<Rightarrow> jsnum" where
  "js_round (Num a) = Num (of_int \<lfloor>a + 1 / 2\<rfloor>)"
| "js_round x = x"

fun js_sqrt :: "jsnum \<Rightarrow> jsnum" where
  "js_sqrt (Num a) = (if a < 0 then NaN else Num (sqrt a))"
| "js_sqrt PInf = PInf"
| "js_sqrt x = NaN"

text \<open>\<^verbatim>\<open>Math.pow(x, 2)\<close>.\<close>

definition js_pow2 :: "jsnum \<Rightarrow> jsnum" where
  "js_pow2 x = js_mul x x"

text \<open>
  \<^verbatim>\<open>parseFloat(x.toFixed(2))\<close>: two decimals, a half away from zero, of the real value.
  The code rounds the double, which can lie on the other side of a half: the double
  nearest to 0.825 is below it and gives 0.82, the real 0.825 gives 0.83.
\<close>

fun js_toFixed2 :: "jsnum \<Rightarrow> jsnum" where
  "js_toFixed2 (Num a) =
     (if 0 \<le> a then Num (of_int \<lfloor>a * 100 + 1 / 2\<rfloor> / 100)
      else Num (- (of_int \<lfloor>- a * 100 + 1 / 2\<rfloor> / 100)))"
| "js_toFixed2 x = x"

text \<open>\<^verbatim>\<open>xs.reduce((sum, x) => sum + x, 0)\<close>.\<close>

definition js_sum :: "jsnum list \<Rightarrow> jsnum" where
  "js_sum xs = foldl js_add (Num 0) xs"

text \<open>
  A property that may be absent reads as \<^verbatim>\<open>undefined\<close> (\<^const>\<open>None\<close>); arithmetic
  converts \<^verbatim>\<open>undefined\<close> to \<^verbatim>\<open>NaN\<close>.
\<close>

fun to_number :: "jsnum option \<Rightarrow> jsnum" where
  "to_number None = NaN"
| "to_number (Some x) = x"

text \<open>The numbers of the \<^verbatim>\<open>quantity\<close> fields of a daily series.\<close>

definition quantities :: "(date \<times> int) list \<Rightarrow> jsnum list" where
  "quantities dailySales = map (\<lambda>d. Num (of_int (snd d))) dailySales"

subsection \<open>The environment of a run\<close>

text \<open>
  What the code reads from outside: the database (through \<^verbatim>\<open>dbHelpers\<close>), the clock and
  \<^verbatim>\<open>Math.random\<close>. \<^verbatim>\<open>random env k\<close> is the value of the \<open>k\<close>-th call of \<^verbatim>\<open>Math.random()\<close>
  of the run, a number in \<open>[0, 1)\<close>; the functions that draw take the number of draws made
  so far and return the new count. \<^verbatim>\<open>today env\<close> is the day of \<^verbatim>\<open>new Date()\<close>.
  A database call either throws or returns; \<^verbatim>\<open>sales_rows env p\<close> is what the query of
  \<^verbatim>\<open>getSalesData\<close> for product \<open>p\<close> selects, most recent first, before its \<^verbatim>\<open>limit\<close>.
\<close>

datatype error = Error string | TypeError string | DbError string

fun message :: "error \<Rightarrow> string" where
  "message (Error m) = m"
| "message (TypeError m) = m"
| "message (DbError m) = m"

record product =
  product_id :: string
  product_name :: string
  product_sku :: string

text \<open>The object \<^verbatim>\<open>forecastData\<close> handed to \<^verbatim>\<open>dbHelpers.createForecast\<close>.\<close>

record forecast_row =
  row_product_id :: string
  forecast_date :: date
  predicted_demand :: "jsnum option"
  confidence_score :: jsnum
  lower_bound :: jsnum
  upper_bound :: jsnum
  model_version :: string

record env =
  sales_rows :: "string \<Rightarrow> error + sale list"
  all_products :: "error + product list"
  product_by_id :: "string \<Rightarrow> error + product option"
  insert_fails :: "forecast_row \<Rightarrow> string option"
  today :: date
  random :: "nat \<Rightarrow> real"

definition getSalesData :: "env \<Rightarrow> string \<Rightarrow> nat \<Rightarrow> error + sale list" where
  "getSalesData env productId limit =
     (case sales_rows env productId of
        Inl e \<Rightarrow> Inl e
      | Inr rows \<Rightarrow> Inr (take limit rows))"

definition getProducts :: "env \<Rightarrow> nat \<Rightarrow> error + product list" where
  "getProducts env limit =
     (case all_products env of
        Inl e \<Rightarrow> Inl e
      | Inr ps \<Rightarrow> Inr (take limit ps))"

text \<open>
  \<^verbatim>\<open>createForecast\<close> inserts the row and returns it as stored (the generated id and
  timestamp are left out), or throws the error of the database.
\<close>

definition createForecast :: "env \<Rightarrow> forecast_row \<Rightarrow> error + forecast_row" where
  "createForecast env forecastData =
     (case insert_fails env forecastData of
        Some m \<Rightarrow> Inl (DbError m)
      | None \<Rightarrow> Inr forecastData)"

subsection \<open>The models of \<^verbatim>\<open>ForecastService\<close>\<close>

record prediction =
  date :: date
  predicted :: "jsnum option"

text \<open>The days \<open>1, \<dots>, days\<close> of the loop \<^verbatim>\<open>for (let i = 1; i <= days; i++)\<close>.\<close>

definition horizon :: "nat \<Rightarrow> nat list" where
  "horizon days = [1 ..< Suc days]"

text \<open>\<^verbatim>\<open>values.slice(-window)\<close> for a positive \<^verbatim>\<open>window\<close>: the last \<^verbatim>\<open>window\<close> values.\<close>

definition slice_last :: "nat \<Rightarrow> 'a list \<Rightarrow> 'a list" where
  "slice_last window xs = drop (length xs - window) xs"

text \<open>
  \<^verbatim>\<open>simpleMovingAverage(dailySales, days, window = 7)\<close>. The \<open>i\<close>-th iteration makes the
  draw number \<open>k + i - 1\<close> of the run; the function returns the predictions and the new
  number of draws.
\<close>

definition randomFactor :: "real \<Rightarrow> real \<Rightarrow> jsnum" where
  "randomFactor variance r = Num (1 + (r - 1 / 2) * variance)"

definition simpleMovingAverage ::
  "env \<Rightarrow> nat \<Rightarrow> (date \<times> int) list \<Rightarrow> nat \<Rightarrow> nat \<Rightarrow> prediction list \<times> nat" where
  "simpleMovingAverage env k dailySales days window =
     (let values = quantities dailySales;
          recentValues = slice_last window values;
          average = js_div (js_sum recentValues) (Num (of_nat (length recentValues)))
      in (map (\<lambda>i. \<lparr>date = today env + int i,
                     predicted = Some (js_max (Num 0)
                        (js_round (js_mul average (randomFactor (1 / 10) (random env (k + i - 1))))))\<rparr>)
            (horizon days),
          k + days))"

text \<open>
  \<^verbatim>\<open>exponentialSmoothing(dailySales, days, alpha = 0.3)\<close>. On an empty series
  \<^verbatim>\<open>values[0]\<close> is \<^verbatim>\<open>undefined\<close>, which \<^verbatim>\<open>Math.round\<close> turns into \<^verbatim>\<open>NaN\<close>.
  The smoothed level is the exact real; where it is a half (4.5 for the series
  6, 6, 6, 6, 6, 6, 1) the doubles of the code can lie just below and round down.
\<close>

definition smooth :: "jsnum \<Rightarrow> jsnum \<Rightarrow> jsnum \<Rightarrow> jsnum" where
  "smooth alpha smoothed v = js_add (js_mul alpha v) (js_mul (js_sub (Num 1) alpha) smoothed)"

definition exponentialSmoothing ::
  "env \<Rightarrow> (date \<times> int) list \<Rightarrow> nat \<Rightarrow> real \<Rightarrow> prediction list" where
  "exponentialSmoothing env dailySales days alpha =
     (let values = quantities dailySales;
          smoothed = (case values of
                        [] \<Rightarrow> NaN
                      | v # rest \<Rightarrow> foldl (smooth (Num alpha)) v rest)
      in map (\<lambda>i. \<lparr>date = today env + int i,
                    predicted = Some (js_max (Num 0) (js_round smoothed))\<rparr>)
           (horizon days))"

text \<open>
  \<^verbatim>\<open>linearTrend(dailySales, days)\<close>: least squares over the indices \<open>0, \<dots>, n - 1\<close>, in
  exact reals; where a predicted value is a half (1.5 for the series 0, 5, 3, 0) the
  doubles of the code can lie just below and round down.
\<close>

definition linearTrend :: "env \<Rightarrow> (date \<times> int) list \<Rightarrow> nat \<Rightarrow> prediction list" where
  "linearTrend env dailySales days =
     (let values = quantities dailySales;
          n = length values;
          xValues = map (\<lambda>i. Num (of_nat i)) [0 ..< n];
          xSum = js_sum xValues;
          ySum = js_sum values;
          xySum = js_sum (map (\<lambda>(x, y). js_mul x y) (zip xValues values));
          x2Sum = js_sum (map (\<lambda>x. js_mul x x) xValues);
          slope = js_div (js_sub (js_mul (Num (of_nat n)) xySum) (js_mul xSum ySum))
                         (js_sub (js_mul (Num (of_nat n)) x2Sum) (js_mul xSum xSum));
          intercept = js_div (js_sub ySum (js_mul slope xSum)) (Num (of_nat n))
      in map (\<lambda>i. \<lparr>date = today env + int i,
                    predicted = Some (js_max (Num 0)
                       (js_round (js_add (js_mul slope (Num (of_nat (n + i - 1)))) intercept)))\<rparr>)
           (horizon days))"

text \<open>\<^verbatim>\<open>calculateConfidenceIntervals(predictions, historicalData)\<close>.\<close>

record forecast =
  f_date :: date
  f_predicted :: "jsnum option"
  f_confidence_score :: jsnum
  f_lower_bound :: jsnum
  f_upper_bound :: jsnum

definition js_mean :: "jsnum list \<Rightarrow> jsnum" where
  "js_mean values = js_div (js_sum values) (Num (of_nat (length values)))"

definition js_stdDev :: "jsnum list \<Rightarrow> jsnum" where
  "js_stdDev values =
     (let mean = js_mean values;
          variance = js_div (foldl (\<lambda>sum val. js_add sum (js_pow2 (js_sub val mean))) (Num 0) values)
                            (Num (of_nat (length values)))
      in js_sqrt variance)"

definition calculateConfidenceIntervals ::
  "prediction list \<Rightarrow> (date \<times> int) list \<Rightarrow> forecast list" where
  "calculateConfidenceIntervals predictions historicalData =
     (let values = quantities historicalData;
          mean = js_mean values;
          stdDev = js_stdDev values
      in map (\<lambda>pred.
            \<lparr>f_date = date pred,
             f_predicted = predicted pred,
             f_confidence_score =
               js_min (Num (95 / 100))
                 (js_max (Num (65 / 100)) (js_sub (Num 1) (js_mul (js_div stdDev mean) (Num (1 / 2))))),
             f_lower_bound =
               js_max (Num 0) (js_sub (to_number (predicted pred)) (js_round (js_mul stdDev (Num (196 / 100))))),
             f_upper_bound =
               js_add (to_number (predicted pred)) (js_round (js_mul stdDev (Num (196 / 100))))\<rparr>)
           predictions)"

subsection \<open>Choosing the model\<close>

text \<open>
  \<^verbatim>\<open>this.models\<close> is an object literal with three own properties. A property read
  \<^verbatim>\<open>this.models[model]\<close> that finds no own property continues in \<^verbatim>\<open>Object.prototype\<close>,
  whose property names are listed below; each of them yields a function or an object,
  which is truthy. Only a name found in neither place yields \<^verbatim>\<open>undefined\<close>.
\<close>

definition objectPrototypeKeys :: "string list" where
  "objectPrototypeKeys =
     [''constructor'', ''__defineGetter__'', ''__defineSetter__'', ''hasOwnProperty'',
      ''__lookupGetter__'', ''__lookupSetter__'', ''isPrototypeOf'', ''propertyIsEnumerable'',
      ''toString'', ''valueOf'', ''__proto__'', ''toLocaleString'']"

datatype model_slot = SimpleMovingAverage | ExponentialSmoothing | LinearTrend | Inherited string

definition models :: "string \<Rightarrow> model_slot option" where
  "models name =
     (if name = ''simple_moving_average'' then Some SimpleMovingAverage
      else if name = ''exponential_smoothing'' then Some ExponentialSmoothing
      else if name = ''linear_trend'' then Some LinearTrend
      else if name \<in> set objectPrototypeKeys then Some (Inherited name)
      else None)"

text \<open>\<^verbatim>\<open>this.models[model] || this.models.simple_moving_average\<close>.\<close>

definition forecastModel :: "string \<Rightarrow> model_slot" where
  "forecastModel model = (case models model of Some f \<Rightarrow> f | None \<Rightarrow> SimpleMovingAverage)"

text \<open>
  \<^verbatim>\<open>forecastModel.call(this, dailySales, days)\<close>. The three models return an array of
  predictions. Of the inherited members, \<^verbatim>\<open>constructor\<close> is \<^verbatim>\<open>Object\<close>, which returns its
  first argument, the array \<^verbatim>\<open>dailySales\<close>, whose elements have no \<^verbatim>\<open>predicted\<close> property;
  \<^verbatim>\<open>__defineGetter__\<close> and \<^verbatim>\<open>__defineSetter__\<close> throw because \<^verbatim>\<open>days\<close> is not a function;
  \<^verbatim>\<open>__proto__\<close> is the prototype object, which has no \<^verbatim>\<open>call\<close>; the others return a string,
  a boolean, \<^verbatim>\<open>undefined\<close> or the service object, none of which is an array. The texts of
  the \<^verbatim>\<open>TypeError\<close>s are those of V8 and are not relied on.
\<close>

datatype model_result = Predictions "prediction list" | NotAnArray

definition callModel ::
  "env \<Rightarrow> nat \<Rightarrow> model_slot \<Rightarrow> (date \<times> int) list \<Rightarrow> nat \<Rightarrow> (error + model_result) \<times> nat" where
  "callModel env k f dailySales days =
     (case f of
        SimpleMovingAverage \<Rightarrow>
          (let (ps, k') = simpleMovingAverage env k dailySales days 7 in (Inr (Predictions ps), k'))
      | ExponentialSmoothing \<Rightarrow>
          (Inr (Predictions (exponentialSmoothing env dailySales days (3 / 10))), k)
      | LinearTrend \<Rightarrow> (Inr (Predictions (linearTrend env dailySales days)), k)
      | Inherited name \<Rightarrow>
          if name = ''constructor''
          then (Inr (Predictions (map (\<lambda>d. \<lparr>date = fst d, predicted = None\<rparr>) dailySales)), k)
          else if name = ''__defineGetter__'' \<or> name = ''__defineSetter__''
          then (Inl (TypeError ''Object.prototype.__defineGetter__: Expecting function''), k)
          else if name = ''__proto__''
          then (Inl (TypeError ''forecastModel.call is not a function''), k)
          else (Inr NotAnArray, k))"

text \<open>
  \<^verbatim>\<open>saveForecastToDatabase(productId, predictions, model)\<close>: one insert per prediction, in
  order; the first insert that throws ends the loop. \<^verbatim>\<open>model_version\<close> is the name that
  was asked for.
\<close>

definition forecastData :: "string \<Rightarrow> string \<Rightarrow> forecast \<Rightarrow> forecast_row" where
  "forecastData productId model p =
     \<lparr>row_product_id = productId,
      forecast_date = f_date p,
      predicted_demand = f_predicted p,
      confidence_score = f_confidence_score p,
      lower_bound = f_lower_bound p,
      upper_bound = f_upper_bound p,
      model_version = model\<rparr>"

fun saveForecastToDatabase ::
  "env \<Rightarrow> string \<Rightarrow> forecast list \<Rightarrow> string \<Rightarrow> error + forecast_row list" where
  "saveForecastToDatabase env productId [] model = Inr []"
| "saveForecastToDatabase env productId (p # ps) model =
     (case createForecast env (forecastData productId model p) of
        Inl e \<Rightarrow> Inl e
      | Inr record \<Rightarrow>
          (case saveForecastToDatabase env productId ps model of
             Inl e \<Rightarrow> Inl e
           | Inr records \<Rightarrow> Inr (record # records)))"

text \<open>
  \<^verbatim>\<open>generateForecast(productId, model = 'simple_moving_average', days = 14)\<close>; the
  \<^verbatim>\<open>catch\<close> block rethrows. \<^verbatim>\<open>generatedAt\<close>, a timestamp, is left out of the result.
\<close>

record forecast_result =
  fr_productId :: string
  fr_model :: string
  fr_predictions :: "forecast_row list"
  fr_dataPoints :: nat

definition generateForecast ::
  "env \<Rightarrow> nat \<Rightarrow> string \<Rightarrow> string \<Rightarrow> nat \<Rightarrow> (error + forecast_result) \<times> nat" where
  "generateForecast env k productId model days =
     (case getSalesData env productId 90 of
        Inl e \<Rightarrow> (Inl e, k)
      | Inr salesData \<Rightarrow>
          if length salesData < 7
          then (Inl (Error ''Insufficient historical data for forecasting''), k)
          else
            (let dailySales = aggregateDailySales salesData
             in case callModel env k (forecastModel model) dailySales days of
                  (Inl e, k') \<Rightarrow> (Inl e, k')
                | (Inr NotAnArray, k') \<Rightarrow> (Inl (TypeError ''predictions.map is not a function''), k')
                | (Inr (Predictions predictions), k') \<Rightarrow>
                    (case saveForecastToDatabase env productId
                            (calculateConfidenceIntervals predictions dailySales) model of
                       Inl e \<Rightarrow> (Inl e, k')
                     | Inr forecastRecords \<Rightarrow>
                         (Inr \<lparr>fr_productId = productId, fr_model = model,
                               fr_predictions = forecastRecords,
                               fr_dataPoints = length dailySales\<rparr>, k'))))"

text \<open>\<^verbatim>\<open>generateBulkForecasts(productIds, model = 'simple_moving_average')\<close>.\<close>

datatype bulk_entry =
  Succeeded string forecast_result
| Failed string string

fun success :: "bulk_entry \<Rightarrow> bool" where
  "success (Succeeded productId forecast) = True"
| "success (Failed productId error) = False"

fun entry_productId :: "bulk_entry \<Rightarrow> string" where
  "entry_productId (Succeeded productId forecast) = productId"
| "entry_productId (Failed productId error) = productId"

fun generateBulkForecasts ::
  "env \<Rightarrow> nat \<Rightarrow> string list \<Rightarrow> string \<Rightarrow> bulk_entry list \<times> nat" where
  "generateBulkForecasts env k [] model = ([], k)"
| "generateBulkForecasts env k (productId # rest) model =
     (let (r, k1) = generateForecast env k productId model 14;
          entry = (case r of
                     Inr forecast \<Rightarrow> Succeeded productId forecast
                   | Inl e \<Rightarrow> Failed productId (message e));
          (results, k2) = generateBulkForecasts env k1 rest model
      in (entry # results, k2))"

subsection \<open>The controller\<close>

text \<open>
  The handlers of \<^verbatim>\<open>forecastController\<close> answer with a status and a JSON body. Of the
  body of a successful answer the product, the forecasts and the metadata are kept.
\<close>

datatype 'a response = Json 'a | Status nat string

text \<open>One iteration of the loop of \<^verbatim>\<open>forecastController.generateForecast\<close>.\<close>

definition controllerForecastData ::
  "env \<Rightarrow> string \<Rightarrow> jsnum \<Rightarrow> jsnum \<Rightarrow> nat \<Rightarrow> real \<Rightarrow> forecast_row" where
  "controllerForecastData env productId avgSales volatility i r =
     (let seasonalFactor = Num (1 + (1 / 10) * sin ((of_nat i / 7) * 2 * pi));
          randomFactor = randomFactor (2 / 10) r;
          predicted = js_max (Num 0) (js_round (js_mul (js_mul avgSales seasonalFactor) randomFactor));
          confidence = js_max (Num (1 / 2))
                         (js_min (Num (95 / 100))
                            (js_sub (Num 1) (js_mul (js_div volatility avgSales) (Num (1 / 2)))));
          lowerBound = js_max (Num 0)
                         (js_round (js_mul predicted (js_sub (Num 1) (js_div volatility avgSales))));
          upperBound = js_round (js_mul predicted (js_add (Num 1) (js_div volatility avgSales)))
      in \<lparr>row_product_id = productId,
          forecast_date = today env + int i,
          predicted_demand = Some predicted,
          confidence_score = js_toFixed2 confidence,
          lower_bound = lowerBound,
          upper_bound = upperBound,
          model_version = ''v1.0''\<rparr>)"

fun controllerForecasts ::
  "env \<Rightarrow> nat \<Rightarrow> string \<Rightarrow> jsnum \<Rightarrow> jsnum \<Rightarrow> nat list \<Rightarrow> (error + forecast_row list) \<times> nat" where
  "controllerForecasts env k productId avgSales volatility [] = (Inr [], k)"
| "controllerForecasts env k productId avgSales volatility (i # rest) =
     (case createForecast env
             (controllerForecastData env productId avgSales volatility i (random env k)) of
        Inl e \<Rightarrow> (Inl e, Suc k)
      | Inr savedForecast \<Rightarrow>
          (case controllerForecasts env (Suc k) productId avgSales volatility rest of
             (Inl e, k') \<Rightarrow> (Inl e, k')
           | (Inr forecasts, k') \<Rightarrow> (Inr (savedForecast # forecasts), k')))"

record forecast_body =
  fb_product :: product
  fb_forecasts :: "forecast_row list"
  fb_avgSales :: jsnum
  fb_dataPoints :: nat

definition sold :: "sale list \<Rightarrow> jsnum list" where
  "sold salesData = map (\<lambda>s. Num (of_int (quantity_sold s))) salesData"

definition controller_generateForecast ::
  "env \<Rightarrow> nat \<Rightarrow> string \<Rightarrow> nat \<Rightarrow> forecast_body response \<times> nat" where
  "controller_generateForecast env k productId days =
     (if productId = [] then (Status 400 ''Product ID is required'', k)
      else case product_by_id env productId of
        Inl e \<Rightarrow> (Status 500 ''Failed to generate forecast'', k)
      | Inr None \<Rightarrow> (Status 404 ''Product not found'', k)
      | Inr (Some product) \<Rightarrow>
          (case getSalesData env productId 90 of
             Inl e \<Rightarrow> (Status 500 ''Failed to generate forecast'', k)
           | Inr salesData \<Rightarrow>
               if length salesData = 0
               then (Status 400 ''No sales data available for forecasting'', k)
               else
                 (let avgSales = js_mean (sold salesData);
                      volatility = js_stdDev (sold salesData)
                  in case controllerForecasts env k productId avgSales volatility (horizon days) of
                       (Inl e, k') \<Rightarrow> (Status 500 ''Failed to generate forecast'', k')
                     | (Inr forecasts, k') \<Rightarrow>
                         (Json \<lparr>fb_product = product, fb_forecasts = forecasts,
                                 fb_avgSales = avgSales, fb_dataPoints = length salesData\<rparr>, k'))))"

text \<open>\<^verbatim>\<open>forecastController.bulkGenerateForecasts\<close>: the inner loop over the days.\<close>

definition bulkForecastData :: "env \<Rightarrow> string \<Rightarrow> jsnum \<Rightarrow> nat \<Rightarrow> real \<Rightarrow> forecast_row" where
  "bulkForecastData env productId avgSales i r =
     (let predicted = js_max (Num 0) (js_round (js_mul avgSales (randomFactor (2 / 10) r)))
      in \<lparr>row_product_id = productId,
          forecast_date = today env + int i,
          predicted_demand = Some predicted,
          confidence_score = Num (75 / 100),
          lower_bound = js_round (js_mul predicted (Num (8 / 10))),
          upper_bound = js_round (js_mul predicted (Num (12 / 10))),
          model_version = ''v1.0-bulk''\<rparr>)"

fun bulkForecasts :: "env \<Rightarrow> nat \<Rightarrow> string \<Rightarrow> jsnum \<Rightarrow> nat list \<Rightarrow> error option \<times> nat" where
  "bulkForecasts env k productId avgSales [] = (None, k)"
| "bulkForecasts env k productId avgSales (i # rest) =
     (case createForecast env (bulkForecastData env productId avgSales i (random env k)) of
        Inl e \<Rightarrow> (Some e, Suc k)
      | Inr saved \<Rightarrow> bulkForecasts env (Suc k) productId avgSales rest)"

record bulk_result =
  br_productId :: string
  br_productName :: string
  br_success :: bool
  br_error :: "string option"

text \<open>The loop over the products; a product with fewer than 5 records is passed over.\<close>

fun bulkProducts :: "env \<Rightarrow> nat \<Rightarrow> nat \<Rightarrow> product list \<Rightarrow> bulk_result list \<times> nat" where
  "bulkProducts env k days [] = ([], k)"
| "bulkProducts env k days (product # rest) =
     (case getSalesData env (product_id product) 30 of
        Inl e \<Rightarrow>
          (let (results, k') = bulkProducts env k days rest
           in (\<lparr>br_productId = product_id product, br_productName = product_name product,
                 br_success = False, br_error = Some (message e)\<rparr> # results, k'))
      | Inr salesData \<Rightarrow>
          if length salesData < 5 then bulkProducts env k days rest
          else
            (case bulkForecasts env k (product_id product) (js_mean (sold salesData)) (horizon days) of
               (Some e, k1) \<Rightarrow>
                 (let (results, k') = bulkProducts env k1 days rest
                  in (\<lparr>br_productId = product_id product, br_productName = product_name product,
                        br_success = False, br_error = Some (message e)\<rparr> # results, k'))
             | (None, k1) \<Rightarrow>
                 (let (results, k') = bulkProducts env k1 days rest
                  in (\<lparr>br_productId = product_id product, br_productName = product_name product,
                        br_success = True, br_error = None\<rparr> # results, k'))))"

record bulk_body =
  bb_total :: nat
  bb_successful :: nat
  bb_failed :: nat
  bb_results :: "bulk_result list"

definition bulkGenerateForecasts :: "env \<Rightarrow> nat \<Rightarrow> nat \<Rightarrow> bulk_body response \<times> nat" where
  "bulkGenerateForecasts env k days =
     (case getProducts env 1000 of
        Inl e \<Rightarrow> (Status 500 ''Failed to bulk generate forecasts'', k)
      | Inr products \<Rightarrow>
          (let (results, k') = bulkProducts env k days products
           in (Json \<lparr>bb_total = length results,
                      bb_successful = length (filter br_success results),
                      bb_failed = length (filter (\<lambda>r. \<not> br_success r) results),
                      bb_results = results\<rparr>, k')))"

subsection \<open>The recommendation rule\<close>

text \<open>
  Modelled from the spec: the recommendation engine of the TrendWise forecaster, the
  Python program \<^verbatim>\<open>model/use_sample_data.py\<close> that \<^verbatim>\<open>TrendWiseService.runPythonScript\<close>
  starts, is not among the sources; only its caller and its description are. The rule is
  the one of section 4.4 of the specification: Increase when the stock is below the
  forecast, else Maintain when it is below the forecast plus the safety stock, else Reduce.
\<close>

datatype recommendation = Increase | Maintain | Reduce

definition recommend :: "real \<Rightarrow> real \<Rightarrow> real \<Rightarrow> recommendation" where
  "recommend current_stock point_forecast safety_stock =
     (if current_stock < point_forecast then Increase
      else if current_stock < point_forecast + safety_stock then Maintain
      else Reduce)"

subsection \<open>Notation and example data for the statements\<close>

text \<open>
  The mean and the population standard deviation of a list of reals, and the quantities
  of a daily series as reals. These are abbreviations: a statement that uses them is a
  statement about the expanded terms.
\<close>

abbreviation mean :: "real list \<Rightarrow> real" where
  "mean xs \<equiv> sum_list xs / real (length xs)"

abbreviation stdDev :: "real list \<Rightarrow> real" where
  "stdDev xs \<equiv> sqrt ((\<Sum>x\<leftarrow>xs. (x - mean xs)\<^sup>2) / real (length xs))"

abbreviation amounts :: "(date \<times> int) list \<Rightarrow> real list" where
  "amounts dailySales \<equiv> map (\<lambda>d. real_of_int (snd d)) dailySales"

text \<open>
  Example data: seven sales records of quantity \<open>q\<close>, one on each of the days 1 to 7,
  and an environment whose database answers every query, holds the rows \<open>table p\<close> for the
  product \<open>p\<close> and accepts every insert.
\<close>

definition week :: "int \<Rightarrow> sale list" where
  "week q = map (\<lambda>d. \<lparr>sale_date = d, quantity_sold = q\<rparr>) [1, 2, 3, 4, 5, 6, 7]"

definition exampleEnv :: "(string \<Rightarrow> sale list) \<Rightarrow> product list \<Rightarrow> (nat \<Rightarrow> real) \<Rightarrow> env" where
  "exampleEnv table products rnd =
     \<lparr>sales_rows = (\<lambda>p. Inr (table p)),
      all_products = Inr products,
      product_by_id = (\<lambda>p. Inr (find (\<lambda>x. product_id x = p) products)),
      insert_fails = (\<lambda>r. None),
      today = 0,
      random = rnd\<rparr>"

text \<open>Seven sales records of quantity \<open>q\<close>, all of them on day 1.\<close>

definition rush :: "int \<Rightarrow> sale list" where
  "rush q = map (\<lambda>i. \<lparr>sale_date = 1, quantity_sold = q\<rparr>) [1, 2, 3, 4, 5, 6, 7 :: int]"

text \<open>
  A daily series of sixteen days: four days around 100, then twelve days of exactly 100.
\<close>

definition wobble :: "(date \<times> int) list" where
  "wobble = zip [1, 2, 3, 4, 5, 6, 7, 8, 9, 10, 11, 12, 13, 14, 15, 16]
                [120, 80, 120, 80, 100, 100, 100, 100, 100, 100, 100, 100, 100, 100, 100, 100]"

section \<open>Properties of the aggregation\<close>

lemma addSale_eq_groupSale: "addSale s m = groupSale s m"
  by (cases "map_of m (sale_date s)")
     (simp_all add: addSale_def groupSale_def Let_def update_conv')

lemma map_of_groupSale:
  "map_of (groupSale s m) d =
     (if sale_date s = d
      then Some ((case map_of m d of None \<Rightarrow> 0 | Some v \<Rightarrow> v) + quantity_sold s)
      else map_of m d)"
  by (auto simp: groupSale_def Let_def update_conv' split: option.splits)

lemma map_of_fold_groupSale:
  "map_of (fold groupSale xs m) d =
     (if d \<in> sale_date ` set xs \<or> map_of m d \<noteq> None
      then Some ((case map_of m d of None \<Rightarrow> 0 | Some v \<Rightarrow> v) + soldOn d xs)
      else None)"
proof (induction xs arbitrary: m)
  case Nil
  then show ?case by (auto simp: soldOn_def)
next
  case (Cons x xs)
  show ?case
    unfolding fold_simps Cons.IH
    by (auto simp: map_of_groupSale soldOn_def split: option.splits)
qed

lemma distinct_groupSale:
  "distinct (map fst m) \<Longrightarrow> distinct (map fst (groupSale s m))"
  by (simp add: groupSale_def Let_def distinct_update)

lemma distinct_fold_groupSale:
  "distinct (map fst m) \<Longrightarrow> distinct (map fst (fold groupSale xs m))"
  by (induction xs arbitrary: m) (simp_all add: distinct_groupSale)

lemma keys_fold_groupSale:
  "fst ` set (fold groupSale xs m) = fst ` set m \<union> sale_date ` set xs"
proof (induction xs arbitrary: m)
  case Nil
  then show ?case by simp
next
  case (Cons x xs)
  have "fst ` set (groupSale x m) = insert (sale_date x) (fst ` set m)"
    by (simp add: groupSale_def Let_def dom_update)
  with Cons.IH [of "groupSale x m"] show ?case by auto
qed

lemma fold_addSale: "fold addSale xs m = fold groupSale xs m"
  by (induction xs arbitrary: m) (simp_all add: addSale_eq_groupSale)

lemma map_of_sort_key_fst:
  "distinct (map fst m) \<Longrightarrow> map_of (sort_key fst m) = map_of m"
proof -
  assume d: "distinct (map fst m)"
  then have "distinct (map fst (sort_key fst m))"
    by (simp add: distinct_map)
  with d show ?thesis
    by (simp add: map_of_inject_set)
qed

lemma distinct_aggregateDailySales: "distinct (map fst (aggregateDailySales salesData))"
proof -
  have "distinct (map fst (fold groupSale salesData []))"
    by (rule distinct_fold_groupSale) simp
  then show ?thesis
    unfolding aggregateDailySales_def fold_addSale by (simp add: distinct_map)
qed

lemma map_of_aggregateDailySales:
  "map_of (aggregateDailySales salesData) d =
     (if d \<in> sale_date ` set salesData then Some (soldOn d salesData) else None)"
proof -
  have "distinct (map fst (fold groupSale salesData []))"
    by (rule distinct_fold_groupSale) simp
  then have "map_of (aggregateDailySales salesData) = map_of (fold groupSale salesData [])"
    unfolding aggregateDailySales_def fold_addSale by (rule map_of_sort_key_fst)
  then show ?thesis
    by (simp add: map_of_fold_groupSale)
qed

lemma keys_aggregateDailySales:
  "fst ` set (aggregateDailySales salesData) = sale_date ` set salesData"
  unfolding aggregateDailySales_def fold_addSale by (simp add: keys_fold_groupSale)

lemma aggregateDailySales_nonempty:
  "salesData \<noteq> [] \<Longrightarrow> aggregateDailySales salesData \<noteq> []"
  using keys_aggregateDailySales [of salesData] by (cases salesData) auto

lemma aggregateDailySales_entry:
  assumes "e \<in> set (aggregateDailySales salesData)"
  shows "snd e = soldOn (fst e) salesData"
proof -
  have "(fst e, snd e) \<in> set (aggregateDailySales salesData)"
    using assms by simp
  with distinct_aggregateDailySales
  have "map_of (aggregateDailySales salesData) (fst e) = Some (snd e)"
    by (rule map_of_is_SomeI)
  then show ?thesis
    by (simp add: map_of_aggregateDailySales split: if_splits)
qed

lemma soldOn_zero:
  "\<forall>s\<in>set salesData. quantity_sold s = 0 \<Longrightarrow> soldOn d salesData = 0"
  by (induction salesData) (simp_all add: soldOn_def)

section \<open>The recommendation rule\<close>

text \<open>
  Claim C1. For every triple of current stock, point forecast and safety stock the rule
  is evaluated in order: a stock below the forecast gives Increase whatever the safety
  stock is; otherwise a stock below forecast plus safety stock gives Maintain; otherwise
  the recommendation is Reduce.
\<close>

theorem recommendation_ordering:
  "(current_stock < point_forecast \<longrightarrow>
      recommend current_stock point_forecast safety_stock = Increase)
   \<and> (\<not> current_stock < point_forecast \<and> current_stock < point_forecast + safety_stock \<longrightarrow>
      recommend current_stock point_forecast safety_stock = Maintain)
   \<and> (\<not> current_stock < point_forecast \<and> \<not> current_stock < point_forecast + safety_stock \<longrightarrow>
      recommend current_stock point_forecast safety_stock = Reduce)"
  by (simp add: recommend_def)

text \<open>Claim C1, at concrete triples, one of them with a negative safety stock.\<close>

theorem recommendation_ordering_witness:
  "recommend 5 10 1000 = Increase \<and> recommend 5 10 (- 1000) = Increase
   \<and> recommend 12 10 3 = Maintain \<and> recommend 13 10 3 = Reduce"
  using recommendation_ordering [of 5 10 1000] recommendation_ordering [of 5 10 "- 1000"]
    recommendation_ordering [of 12 10 3] recommendation_ordering [of 13 10 3]
  by simp

section \<open>Daily aggregation\<close>

text \<open>
  Claim C2. For every list of sales records of one product and every date that has a
  record, the daily series holds exactly one entry for that date, and its value is the
  sum of the quantities of all records of that date: records that share a date are added
  up, none replaces another. A date without records has no entry. The same holds for the
  grouping step of \<^verbatim>\<open>fetchSalesDataFromDB\<close>.
\<close>

theorem aggregateDailySales_sums:
  "map_of (aggregateDailySales salesData) d =
     (if d \<in> sale_date ` set salesData then Some (soldOn d salesData) else None)
   \<and> map_of (groupSalesByDate salesData) d =
     (if d \<in> sale_date ` set salesData then Some (soldOn d salesData) else None)
   \<and> distinct (map fst (aggregateDailySales salesData))
   \<and> distinct (map fst (groupSalesByDate salesData))"
proof -
  have d: "distinct (map fst (fold groupSale salesData []))"
    by (rule distinct_fold_groupSale) simp
  have m: "map_of (fold groupSale salesData []) d =
     (if d \<in> sale_date ` set salesData then Some (soldOn d salesData) else None)"
    by (simp add: map_of_fold_groupSale)
  have "map_of (aggregateDailySales salesData) = map_of (fold groupSale salesData [])"
    unfolding aggregateDailySales_def fold_addSale using d by (rule map_of_sort_key_fst)
  moreover have "distinct (map fst (aggregateDailySales salesData))"
    unfolding aggregateDailySales_def fold_addSale using d by (simp add: distinct_map)
  ultimately show ?thesis
    using d m by (simp add: groupSalesByDate_def)
qed

text \<open>Claim C2, on three records of which two share a date.\<close>

theorem aggregateDailySales_sums_witness:
  "map_of (aggregateDailySales
      [\<lparr>sale_date = 2, quantity_sold = 3\<rparr>, \<lparr>sale_date = 1, quantity_sold = 5\<rparr>,
       \<lparr>sale_date = 2, quantity_sold = 4\<rparr>]) 2 = Some 7"
  using aggregateDailySales_sums
    [of "[\<lparr>sale_date = 2, quantity_sold = 3\<rparr>, \<lparr>sale_date = 1, quantity_sold = 5\<rparr>,
       \<lparr>sale_date = 2, quantity_sold = 4\<rparr>]" 2]
  by (simp add: soldOn_def)

text \<open>
  Claim C3 as stated fails: the series has no entry for a date without records, so a
  period between the first and the last one can be missing. With records on the days
  1, 2, 3 and 5 (daily cadence) there is no entry for day 4, and with records on the days
  1, 8 and 22 (weekly cadence) there is none for day 15; no entry has the value 0.
\<close>

theorem aggregateDailySales_gap_counterexample:
  "aggregateDailySales
      [\<lparr>sale_date = 5, quantity_sold = 7\<rparr>, \<lparr>sale_date = 1, quantity_sold = 4\<rparr>,
       \<lparr>sale_date = 2, quantity_sold = 1\<rparr>, \<lparr>sale_date = 3, quantity_sold = 2\<rparr>]
     = [(1, 4), (2, 1), (3, 2), (5, 7)]
   \<and> aggregateDailySales
      [\<lparr>sale_date = 22, quantity_sold = 6\<rparr>, \<lparr>sale_date = 8, quantity_sold = 6\<rparr>,
       \<lparr>sale_date = 1, quantity_sold = 6\<rparr>]
     = [(1, 6), (8, 6), (22, 6)]"
  by (simp add: aggregateDailySales_def addSale_def)

text \<open>
  Claim C3, amended. The daily series has exactly the dates on which at least one sales
  record exists, in strictly increasing order; dates without records are left out, not
  filled with 0.
\<close>

theorem aggregateDailySales_dates:
  "set (map fst (aggregateDailySales salesData)) = sale_date ` set salesData
   \<and> sorted_wrt (<) (map fst (aggregateDailySales salesData))"
proof -
  have d: "distinct (map fst (fold groupSale salesData []))"
    by (rule distinct_fold_groupSale) simp
  then have "distinct (map fst (aggregateDailySales salesData))"
    unfolding aggregateDailySales_def fold_addSale by (simp add: distinct_map)
  moreover have "sorted (map fst (aggregateDailySales salesData))"
    unfolding aggregateDailySales_def by simp
  ultimately have "sorted_wrt (<) (map fst (aggregateDailySales salesData))"
    by (simp add: strict_sorted_iff)
  moreover have "set (map fst (aggregateDailySales salesData)) = sale_date ` set salesData"
    unfolding aggregateDailySales_def fold_addSale
    by (simp add: keys_fold_groupSale)
  ultimately show ?thesis by simp
qed

section \<open>The arithmetic of the models on finite numbers\<close>

lemma foldl_js_add_Num: "foldl js_add (Num a) (map Num xs) = Num (a + sum_list xs)"
  by (induction xs arbitrary: a) (simp_all add: add.assoc)

lemma js_sum_Num: "js_sum (map Num xs) = Num (sum_list xs)"
  by (simp add: js_sum_def foldl_js_add_Num)

lemma js_mean_Num:
  "xs \<noteq> [] \<Longrightarrow> js_mean (map Num xs) = Num (mean xs)"
  by (simp add: js_mean_def js_sum_Num)

lemma foldl_sq_Num:
  "foldl (\<lambda>sum val. js_add sum (js_pow2 (js_sub val (Num m)))) (Num a) (map Num xs)
     = Num (a + (\<Sum>x\<leftarrow>xs. (x - m)\<^sup>2))"
  by (induction xs arbitrary: a) (simp_all add: js_pow2_def js_sub_def add.assoc power2_eq_square)

lemma js_stdDev_Num:
  assumes "xs \<noteq> []"
  shows "js_stdDev (map Num xs) = Num (stdDev xs)"
proof -
  have "0 \<le> (\<Sum>x\<leftarrow>xs. (x - mean xs)\<^sup>2)"
    by (rule sum_list_nonneg) auto
  then have "\<not> (\<Sum>x\<leftarrow>xs. (x - mean xs)\<^sup>2) / real (length xs) < 0"
    by (simp add: not_less)
  then show ?thesis
    unfolding js_stdDev_def Let_def js_mean_Num [OF assms] foldl_sq_Num
    using assms by simp
qed

lemma quantities_Num: "quantities dailySales = map Num (amounts dailySales)"
  by (simp add: quantities_def)

lemma calculateConfidenceIntervals_Num:
  assumes "historicalData \<noteq> []"
  shows "calculateConfidenceIntervals predictions historicalData =
     map (\<lambda>pred.
            \<lparr>f_date = date pred,
             f_predicted = predicted pred,
             f_confidence_score =
               js_min (Num (95 / 100))
                 (js_max (Num (65 / 100))
                    (js_sub (Num 1)
                       (js_mul (js_div (Num (stdDev (amounts historicalData)))
                                       (Num (mean (amounts historicalData))))
                               (Num (1 / 2))))),
             f_lower_bound =
               js_max (Num 0)
                 (js_sub (to_number (predicted pred))
                    (Num (of_int \<lfloor>stdDev (amounts historicalData) * (196 / 100) + 1 / 2\<rfloor>))),
             f_upper_bound =
               js_add (to_number (predicted pred))
                 (Num (of_int \<lfloor>stdDev (amounts historicalData) * (196 / 100) + 1 / 2\<rfloor>))\<rparr>)
         predictions"
proof -
  have ne: "amounts historicalData \<noteq> []"
    using assms by simp
  show ?thesis
    unfolding calculateConfidenceIntervals_def Let_def quantities_Num
      js_mean_Num [OF ne] js_stdDev_Num [OF ne]
    by simp
qed

lemma length_calculateConfidenceIntervals [simp]:
  "length (calculateConfidenceIntervals ps h) = length ps"
  by (simp add: calculateConfidenceIntervals_def Let_def)

lemma length_horizon [simp]: "length (horizon days) = days"
  by (simp add: horizon_def)

lemma nth_horizon: "i < days \<Longrightarrow> horizon days ! i = Suc i"
  by (simp add: horizon_def del: upt_Suc)

lemma set_horizon: "set (horizon days) = {1..days}"
  by (auto simp: horizon_def)

lemma simpleMovingAverage_Num:
  assumes "dailySales \<noteq> []"
  shows "simpleMovingAverage env k dailySales days 7 =
     (map (\<lambda>i. \<lparr>date = today env + int i,
                  predicted = Some (Num (max 0 (of_int
                    \<lfloor>mean (drop (length dailySales - 7) (amounts dailySales))
                        * (1 + (random env (k + i - 1) - 1 / 2) * (1 / 10)) + 1 / 2\<rfloor>)))\<rparr>)
        (horizon days),
      k + days)"
proof -
  have ne: "drop (length dailySales - 7) (amounts dailySales) \<noteq> []"
    using assms by (cases dailySales) simp_all
  have sl: "slice_last 7 (quantities dailySales)
              = map Num (drop (length dailySales - 7) (amounts dailySales))"
    by (simp add: slice_last_def quantities_def drop_map)
  have av: "js_div (js_sum (slice_last 7 (quantities dailySales)))
               (Num (real (length (slice_last 7 (quantities dailySales)))))
            = Num (mean (drop (length dailySales - 7) (amounts dailySales)))"
    using js_mean_Num [OF ne] unfolding sl js_mean_def by simp
  show ?thesis
    unfolding simpleMovingAverage_def Let_def av randomFactor_def
    by simp
qed

section \<open>The service, step by step\<close>

lemma saveForecastToDatabase_ok:
  "\<forall>r. insert_fails env r = None \<Longrightarrow>
   saveForecastToDatabase env productId fs model = Inr (map (forecastData productId model) fs)"
  by (induction fs) (simp_all add: createForecast_def)

lemma generateForecast_eq:
  assumes "getSalesData env productId 90 = Inr salesData" and "7 \<le> length salesData"
    and "callModel env k (forecastModel model) (aggregateDailySales salesData) days
           = (Inr (Predictions ps), k')"
    and "\<forall>r. insert_fails env r = None"
  shows "generateForecast env k productId model days =
     (Inr \<lparr>fr_productId = productId, fr_model = model,
            fr_predictions = map (forecastData productId model)
               (calculateConfidenceIntervals ps (aggregateDailySales salesData)),
            fr_dataPoints = length (aggregateDailySales salesData)\<rparr>, k')"
  using assms by (simp add: generateForecast_def Let_def saveForecastToDatabase_ok)

lemma callModel_cases:
  assumes "forecastModel model \<in> {SimpleMovingAverage, ExponentialSmoothing, LinearTrend}"
  shows "\<exists>ps k'. callModel env k (forecastModel model) dailySales days = (Inr (Predictions ps), k')
           \<and> length ps = days"
  using assms
  by (auto simp: callModel_def simpleMovingAverage_def exponentialSmoothing_def linearTrend_def
      Let_def)

lemma forecastModel_unknown:
  "forecastModel model \<in> {SimpleMovingAverage, ExponentialSmoothing, LinearTrend}
     \<longleftrightarrow> model \<notin> set objectPrototypeKeys"
  by (auto simp: forecastModel_def models_def objectPrototypeKeys_def)

lemma forecastModel_fallback:
  "model \<noteq> ''simple_moving_average'' \<Longrightarrow> model \<noteq> ''exponential_smoothing'' \<Longrightarrow>
   model \<noteq> ''linear_trend'' \<Longrightarrow> model \<notin> set objectPrototypeKeys \<Longrightarrow>
   forecastModel model = SimpleMovingAverage"
  by (simp add: forecastModel_def models_def)

lemma generateForecast_insufficient:
  assumes "getSalesData env productId 90 = Inr salesData" and "length salesData < 7"
  shows "generateForecast env k productId model days =
           (Inl (Error ''Insufficient historical data for forecasting''), k)"
  using assms by (simp add: generateForecast_def)

lemma generateForecast_succeeds:
  assumes "getSalesData env productId 90 = Inr salesData" and "7 \<le> length salesData"
    and "model \<notin> set objectPrototypeKeys" and "\<forall>r. insert_fails env r = None"
  shows "\<exists>res. fst (generateForecast env k productId model days) = Inr res
           \<and> fr_productId res = productId \<and> fr_model res = model
           \<and> length (fr_predictions res) = days
           \<and> fr_dataPoints res = length (aggregateDailySales salesData)"
proof -
  have "forecastModel model \<in> {SimpleMovingAverage, ExponentialSmoothing, LinearTrend}"
    using assms(3) forecastModel_unknown by blast
  from callModel_cases [OF this] obtain ps k' where
    c: "callModel env k (forecastModel model) (aggregateDailySales salesData) days
          = (Inr (Predictions ps), k')" and l: "length ps = days"
    by blast
  show ?thesis
    unfolding generateForecast_eq [OF assms(1,2) c assms(4)] using l by simp
qed

section \<open>The example data\<close>

lemma exampleEnv_sel [simp]:
  "sales_rows (exampleEnv table products rnd) = (\<lambda>p. Inr (table p))"
  "insert_fails (exampleEnv table products rnd) = (\<lambda>r. None)"
  "today (exampleEnv table products rnd) = 0"
  "random (exampleEnv table products rnd) = rnd"
  "all_products (exampleEnv table products rnd) = Inr products"
  by (simp_all add: exampleEnv_def)

lemma getSalesData_example [simp]:
  "getSalesData (exampleEnv table products rnd) p limit = Inr (take limit (table p))"
  by (simp add: getSalesData_def)

lemma length_week [simp]: "length (week q) = 7"
  by (simp add: week_def)

lemma take_week [simp]: "take 90 (week q) = week q" "take 30 (week q) = week q"
  by simp_all

lemma aggregate_week: "aggregateDailySales (week q) = map (\<lambda>d. (d, q)) [1, 2, 3, 4, 5, 6, 7]"
  by (simp add: week_def aggregateDailySales_def addSale_def)

lemma length_aggregate_week: "length (aggregateDailySales (week q)) = 7"
  by (simp add: aggregate_week)

lemma product_by_id_example [simp]:
  "product_by_id (exampleEnv table products rnd) = (\<lambda>p. Inr (find (\<lambda>x. product_id x = p) products))"
  by (simp add: exampleEnv_def)

lemma sold_Num: "sold salesData = map Num (map (\<lambda>s. real_of_int (quantity_sold s)) salesData)"
  by (simp add: sold_def)

lemma sold_week:
  "sold (week q) = map Num (map real_of_int [q, q, q, q, q, q, q])"
  by (simp add: sold_def week_def)

lemma aggregate_rush: "aggregateDailySales (rush q) = [(1, 7 * q)]"
  by (simp add: rush_def aggregateDailySales_def addSale_def)

lemma length_rush [simp]: "length (rush q) = 7"
  by (simp add: rush_def)

section \<open>History thresholds\<close>

text \<open>
  Claim C5 as stated fails: the service has no threshold of 90 daily or 12 weekly periods.
  A product with seven sales records on seven days is forecast.
\<close>

theorem generateForecast_seven_records_counterexample:
  "generateForecast (exampleEnv (\<lambda>p. week 10) [] (\<lambda>k. 1 / 2)) 0 ''P1'' ''simple_moving_average'' 1 =
     (Inr \<lparr>fr_productId = ''P1'', fr_model = ''simple_moving_average'',
          fr_predictions =
            [\<lparr>row_product_id = ''P1'', forecast_date = 1, predicted_demand = Some (Num 10),
              confidence_score = Num (95 / 100), lower_bound = Num 10, upper_bound = Num 10,
              model_version = ''simple_moving_average''\<rparr>],
          fr_dataPoints = 7\<rparr>, 1)"
proof -
  let ?env = "exampleEnv (\<lambda>p. week 10) [] (\<lambda>k. 1 / 2)"
  let ?days = "map (\<lambda>d. (d, 10)) [1, 2, 3, 4, 5, 6, 7 :: int]"
  have s: "getSalesData ?env ''P1'' 90 = Inr (week 10)"
    by simp
  have "simpleMovingAverage ?env 0 ?days 1 7 = ([\<lparr>date = 1, predicted = Some (Num 10)\<rparr>], 1)"
    by (simp add: simpleMovingAverage_Num horizon_def)
  then have c: "callModel ?env 0 (forecastModel ''simple_moving_average'') (aggregateDailySales (week 10)) 1
      = (Inr (Predictions [\<lparr>date = 1, predicted = Some (Num 10)\<rparr>]), 1)"
    by (simp add: callModel_def forecastModel_def models_def aggregate_week)
  have i: "calculateConfidenceIntervals [\<lparr>date = 1, predicted = Some (Num 10)\<rparr>] ?days =
      [\<lparr>f_date = 1, f_predicted = Some (Num 10), f_confidence_score = Num (95 / 100),
        f_lower_bound = Num 10, f_upper_bound = Num 10\<rparr>]"
    by (simp add: calculateConfidenceIntervals_Num js_sub_def)
  have "generateForecast ?env 0 ''P1'' ''simple_moving_average'' 1 =
     (Inr \<lparr>fr_productId = ''P1'', fr_model = ''simple_moving_average'',
            fr_predictions = map (forecastData ''P1'' ''simple_moving_average'')
               (calculateConfidenceIntervals [\<lparr>date = 1, predicted = Some (Num 10)\<rparr>]
                  (aggregateDailySales (week 10))),
            fr_dataPoints = length (aggregateDailySales (week 10))\<rparr>, 1)"
    by (rule generateForecast_eq [OF s _ c]) simp_all
  then show ?thesis
    unfolding aggregate_week i by (simp add: forecastData_def)
qed

text \<open>
  Claim C5, amended. \<^verbatim>\<open>generateForecast\<close> rejects a product with the error
  \<^verbatim>\<open>Insufficient historical data for forecasting\<close> when the query returns fewer than 7
  sales records, and produces no forecast for it; with 7 records or more, a model name
  that is not a property of \<^verbatim>\<open>Object.prototype\<close> and a database that accepts the inserts,
  it returns a forecast of \<open>days\<close> rows.
\<close>

theorem generateForecast_threshold:
  assumes "getSalesData env productId 90 = Inr salesData"
  shows "(length salesData < 7 \<longrightarrow>
            generateForecast env k productId model days =
              (Inl (Error ''Insufficient historical data for forecasting''), k))
       \<and> (7 \<le> length salesData \<and> model \<notin> set objectPrototypeKeys
            \<and> (\<forall>r. insert_fails env r = None) \<longrightarrow>
            (\<exists>res. fst (generateForecast env k productId model days) = Inr res
               \<and> length (fr_predictions res) = days
               \<and> fr_dataPoints res = length (aggregateDailySales salesData)))"
  using generateForecast_insufficient [OF assms] generateForecast_succeeds [OF assms]
  by blast

text \<open>Claim C5, amended, at a product with six records and at one with seven.\<close>

theorem generateForecast_threshold_witness:
  "generateForecast (exampleEnv (\<lambda>p. take 6 (week 10)) [] (\<lambda>k. 1 / 2)) 0 ''P2'' ''linear_trend'' 14 =
      (Inl (Error ''Insufficient historical data for forecasting''), 0)
   \<and> (\<exists>res. fst (generateForecast (exampleEnv (\<lambda>p. week 10) [] (\<lambda>k. 1 / 2)) 0 ''P1''
                    ''linear_trend'' 14) = Inr res
         \<and> length (fr_predictions res) = 14 \<and> fr_dataPoints res = 7)"
  using generateForecast_threshold
          [of "exampleEnv (\<lambda>p. take 6 (week 10)) [] (\<lambda>k. 1 / 2)" "''P2''" "take 6 (week 10)"
              0 "''linear_trend''" 14]
        generateForecast_threshold
          [of "exampleEnv (\<lambda>p. week 10) [] (\<lambda>k. 1 / 2)" "''P1''" "week 10"
              0 "''linear_trend''" 14]
  by (simp add: objectPrototypeKeys_def length_aggregate_week)

section \<open>Unknown model names\<close>

text \<open>
  Claim C10 at the model name \<^verbatim>\<open>toString\<close>, for a product with seven sales records: the
  name is found in \<^verbatim>\<open>Object.prototype\<close>, so the moving average is not substituted, and the
  call ends in a \<^verbatim>\<open>TypeError\<close> instead of a result.
\<close>

theorem generateForecast_toString:
  "generateForecast (exampleEnv (\<lambda>p. week 10) [] (\<lambda>k. 1 / 2)) 0 ''P1'' ''toString'' 14 =
     (Inl (TypeError ''predictions.map is not a function''), 0)"
  by (simp add: generateForecast_def forecastModel_def models_def objectPrototypeKeys_def
      callModel_def)

section \<open>Forecasts of a series with a nonzero mean\<close>

lemma confidence_range:
  assumes "m \<noteq> 0"
  shows "\<exists>c. js_min (Num (95 / 100))
               (js_max (Num (65 / 100))
                  (js_sub (Num 1) (js_mul (js_div (Num s) (Num m)) (Num (1 / 2))))) = Num c
             \<and> 65 / 100 \<le> c \<and> c \<le> 95 / 100"
  using assms by (simp add: js_sub_def min_def max_def)

lemma bounds_range:
  assumes "0 \<le> p" and "0 \<le> w"
  shows "\<exists>l u. js_max (Num 0) (js_sub (Num p) (Num w)) = Num l \<and> js_add (Num p) (Num w) = Num u
             \<and> 0 \<le> l \<and> l \<le> u"
  using assms by (simp add: js_sub_def max_def)

lemma calculateConfidenceIntervals_wellformed:
  assumes "historicalData \<noteq> []" and "mean (amounts historicalData) \<noteq> 0"
    and "\<forall>pred\<in>set predictions. \<exists>p. predicted pred = Some (Num p) \<and> 0 \<le> p"
    and "f \<in> set (calculateConfidenceIntervals predictions historicalData)"
  shows "\<exists>p l u c. f_predicted f = Some (Num p) \<and> f_lower_bound f = Num l
           \<and> f_upper_bound f = Num u \<and> f_confidence_score f = Num c
           \<and> 0 \<le> p \<and> 0 \<le> l \<and> l \<le> u \<and> 65 / 100 \<le> c \<and> c \<le> 95 / 100"
proof -
  let ?s = "stdDev (amounts historicalData)"
  let ?w = "real_of_int \<lfloor>?s * (196 / 100) + 1 / 2\<rfloor>"
  have "0 \<le> ?s"
    by (intro real_sqrt_ge_zero divide_nonneg_nonneg sum_list_nonneg) auto
  then have "0 \<le> ?s * (196 / 100) + 1 / 2"
    by simp
  then have w: "0 \<le> ?w"
    by simp
  from assms(4) obtain pred where pred: "pred \<in> set predictions"
    and f: "f = \<lparr>f_date = date pred,
             f_predicted = predicted pred,
             f_confidence_score =
               js_min (Num (95 / 100))
                 (js_max (Num (65 / 100))
                    (js_sub (Num 1)
                       (js_mul (js_div (Num ?s) (Num (mean (amounts historicalData))))
                               (Num (1 / 2))))),
             f_lower_bound = js_max (Num 0) (js_sub (to_number (predicted pred)) (Num ?w)),
             f_upper_bound = js_add (to_number (predicted pred)) (Num ?w)\<rparr>"
    unfolding calculateConfidenceIntervals_Num [OF assms(1)] by auto
  from assms(3) pred obtain p where p: "predicted pred = Some (Num p)" "0 \<le> p"
    by blast
  from confidence_range [OF assms(2), of ?s] bounds_range [OF p(2) w]
  show ?thesis
    unfolding f p using p(2) by auto
qed

lemma simpleMovingAverage_wellformed:
  assumes "dailySales \<noteq> []"
  shows "\<forall>pred\<in>set (fst (simpleMovingAverage env k dailySales days 7)).
           \<exists>p. predicted pred = Some (Num p) \<and> 0 \<le> p"
  unfolding simpleMovingAverage_Num [OF assms] by auto

section \<open>The constant-zero series\<close>

lemma amounts_zero:
  assumes "\<forall>s\<in>set salesData. quantity_sold s = 0"
  shows "amounts (aggregateDailySales salesData)
           = replicate (length (aggregateDailySales salesData)) 0"
proof -
  have "\<forall>e\<in>set (aggregateDailySales salesData). real_of_int (snd e) = 0"
    using assms by (simp add: aggregateDailySales_entry soldOn_zero)
  then have "amounts (aggregateDailySales salesData)
               = map (\<lambda>e. 0) (aggregateDailySales salesData)"
    by (simp cong: map_cong)
  then show ?thesis
    by (simp add: map_replicate_const)
qed

lemma simpleMovingAverage_zero:
  assumes "dailySales \<noteq> []" and "amounts dailySales = replicate (length dailySales) 0"
  shows "fst (simpleMovingAverage env k dailySales days 7) =
           map (\<lambda>i. \<lparr>date = today env + int i, predicted = Some (Num 0)\<rparr>) (horizon days)"
  unfolding simpleMovingAverage_Num [OF assms(1)] assms(2)
  by (simp add: sum_list_replicate)

lemma foldl_smooth_zero:
  "foldl (smooth (Num a)) (Num 0) (replicate n (Num 0)) = Num 0"
  by (induction n) (simp_all add: smooth_def js_sub_def)

lemma exponentialSmoothing_zero:
  assumes "dailySales \<noteq> []" and "amounts dailySales = replicate (length dailySales) 0"
  shows "exponentialSmoothing env dailySales days a =
           map (\<lambda>i. \<lparr>date = today env + int i, predicted = Some (Num 0)\<rparr>) (horizon days)"
proof -
  obtain n where n: "length dailySales = Suc n"
    using assms(1) by (cases dailySales) auto
  have "quantities dailySales = Num 0 # map Num (replicate n 0)"
    unfolding quantities_Num assms(2) n by simp
  then show ?thesis
    by (simp add: exponentialSmoothing_def foldl_smooth_zero)
qed

lemma calculateConfidenceIntervals_zero:
  assumes "dailySales \<noteq> []" and "amounts dailySales = replicate (length dailySales) 0"
    and "f \<in> set (calculateConfidenceIntervals
                     (map (\<lambda>i. \<lparr>date = today env + int i, predicted = Some (Num 0)\<rparr>) is) dailySales)"
  shows "f_predicted f = Some (Num 0) \<and> f_lower_bound f = Num 0 \<and> f_upper_bound f = Num 0"
  using assms(3)
  unfolding calculateConfidenceIntervals_Num [OF assms(1)] assms(2)
  by (auto simp: sum_list_replicate js_sub_def)

lemma forecastModel_not_trend:
  assumes "model \<notin> set objectPrototypeKeys" and "model \<noteq> ''linear_trend''"
  shows "forecastModel model = SimpleMovingAverage \<or> forecastModel model = ExponentialSmoothing"
  using assms by (simp add: forecastModel_def models_def)

text \<open>
  Claim C7 at seven sales records of quantity 0, one a day: the mean of the series is 0, so
  the confidence score divides 0 by 0. The service computes forecasts whose confidence
  score is \<^verbatim>\<open>NaN\<close>, and the controller computes rows whose confidence score and both
  bounds are \<^verbatim>\<open>NaN\<close>; with a database that accepts them, these are the results
  returned. \<^verbatim>\<open>NaN\<close> does not lie in \<open>[0, 1]\<close>, and a \<^verbatim>\<open>NaN\<close> bound is neither at least 0 nor
  at least the lower bound.
\<close>

theorem zero_sales_forecast_NaN:
  "calculateConfidenceIntervals
      (fst (simpleMovingAverage (exampleEnv (\<lambda>p. week 0) [] (\<lambda>k. 1 / 2)) 0
              (aggregateDailySales (week 0)) 1 7))
      (aggregateDailySales (week 0)) =
     [\<lparr>f_date = 1, f_predicted = Some (Num 0), f_confidence_score = NaN,
       f_lower_bound = Num 0, f_upper_bound = Num 0\<rparr>]
   \<and> generateForecast (exampleEnv (\<lambda>p. week 0) [] (\<lambda>k. 1 / 2)) 0 ''P1'' ''simple_moving_average'' 1 =
     (Inr \<lparr>fr_productId = ''P1'', fr_model = ''simple_moving_average'',
          fr_predictions =
            [\<lparr>row_product_id = ''P1'', forecast_date = 1, predicted_demand = Some (Num 0),
              confidence_score = NaN, lower_bound = Num 0, upper_bound = Num 0,
              model_version = ''simple_moving_average''\<rparr>],
          fr_dataPoints = 7\<rparr>, 1)
   \<and> controllerForecastData (exampleEnv (\<lambda>p. week 0) [] (\<lambda>k. 1 / 2)) ''P1''
       (js_mean (sold (week 0))) (js_stdDev (sold (week 0))) 1 (1 / 2) =
     \<lparr>row_product_id = ''P1'', forecast_date = 1, predicted_demand = Some (Num 0),
      confidence_score = NaN, lower_bound = NaN, upper_bound = NaN, model_version = ''v1.0''\<rparr>
   \<and> controller_generateForecast
       (exampleEnv (\<lambda>p. week 0) [\<lparr>product_id = ''P1'', product_name = ''Pen'', product_sku = ''S1''\<rparr>]
          (\<lambda>k. 1 / 2)) 0 ''P1'' 1 =
     (Json \<lparr>fb_product = \<lparr>product_id = ''P1'', product_name = ''Pen'', product_sku = ''S1''\<rparr>,
            fb_forecasts =
              [\<lparr>row_product_id = ''P1'', forecast_date = 1, predicted_demand = Some (Num 0),
                confidence_score = NaN, lower_bound = NaN, upper_bound = NaN,
                model_version = ''v1.0''\<rparr>],
            fb_avgSales = Num 0, fb_dataPoints = 7\<rparr>, 1)"
proof -
  let ?env = "exampleEnv (\<lambda>p. week 0) [] (\<lambda>k. 1 / 2)"
  let ?days = "map (\<lambda>d. (d, 0)) [1, 2, 3, 4, 5, 6, 7 :: int]"
  have s: "getSalesData ?env ''P1'' 90 = Inr (week 0)"
    by simp
  have a: "simpleMovingAverage ?env 0 ?days 1 7 = ([\<lparr>date = 1, predicted = Some (Num 0)\<rparr>], 1)"
    by (simp add: simpleMovingAverage_Num horizon_def)
  then have c: "callModel ?env 0 (forecastModel ''simple_moving_average'') (aggregateDailySales (week 0)) 1
      = (Inr (Predictions [\<lparr>date = 1, predicted = Some (Num 0)\<rparr>]), 1)"
    by (simp add: callModel_def forecastModel_def models_def aggregate_week)
  have i: "calculateConfidenceIntervals [\<lparr>date = 1, predicted = Some (Num 0)\<rparr>] ?days =
      [\<lparr>f_date = 1, f_predicted = Some (Num 0), f_confidence_score = NaN,
        f_lower_bound = Num 0, f_upper_bound = Num 0\<rparr>]"
    by (simp add: calculateConfidenceIntervals_Num js_sub_def)
  have computed: "calculateConfidenceIntervals
      (fst (simpleMovingAverage ?env 0 (aggregateDailySales (week 0)) 1 7))
      (aggregateDailySales (week 0)) =
     [\<lparr>f_date = 1, f_predicted = Some (Num 0), f_confidence_score = NaN,
       f_lower_bound = Num 0, f_upper_bound = Num 0\<rparr>]"
    unfolding aggregate_week a using i by simp
  have "generateForecast ?env 0 ''P1'' ''simple_moving_average'' 1 =
     (Inr \<lparr>fr_productId = ''P1'', fr_model = ''simple_moving_average'',
            fr_predictions = map (forecastData ''P1'' ''simple_moving_average'')
               (calculateConfidenceIntervals [\<lparr>date = 1, predicted = Some (Num 0)\<rparr>]
                  (aggregateDailySales (week 0))),
            fr_dataPoints = length (aggregateDailySales (week 0))\<rparr>, 1)"
    by (rule generateForecast_eq [OF s _ c]) simp_all
  then have service: "generateForecast ?env 0 ''P1'' ''simple_moving_average'' 1 =
     (Inr \<lparr>fr_productId = ''P1'', fr_model = ''simple_moving_average'',
          fr_predictions =
            [\<lparr>row_product_id = ''P1'', forecast_date = 1, predicted_demand = Some (Num 0),
              confidence_score = NaN, lower_bound = Num 0, upper_bound = Num 0,
              model_version = ''simple_moving_average''\<rparr>],
          fr_dataPoints = 7\<rparr>, 1)"
    unfolding aggregate_week i by (simp add: forecastData_def)
  have m: "js_mean (sold (week 0)) = Num 0"
    by (simp add: sold_week js_mean_def js_sum_def)
  have v: "js_stdDev (sold (week 0)) = Num 0"
    by (simp add: sold_week js_stdDev_def js_mean_def js_sum_def js_pow2_def js_sub_def)
  have row: "controllerForecastData ?env ''P1''
       (js_mean (sold (week 0))) (js_stdDev (sold (week 0))) 1 (1 / 2) =
     \<lparr>row_product_id = ''P1'', forecast_date = 1, predicted_demand = Some (Num 0),
      confidence_score = NaN, lower_bound = NaN, upper_bound = NaN, model_version = ''v1.0''\<rparr>"
    by (simp add: m v controllerForecastData_def Let_def randomFactor_def js_sub_def)
  have controller: "controller_generateForecast
       (exampleEnv (\<lambda>p. week 0) [\<lparr>product_id = ''P1'', product_name = ''Pen'', product_sku = ''S1''\<rparr>]
          (\<lambda>k. 1 / 2)) 0 ''P1'' 1 =
     (Json \<lparr>fb_product = \<lparr>product_id = ''P1'', product_name = ''Pen'', product_sku = ''S1''\<rparr>,
            fb_forecasts =
              [\<lparr>row_product_id = ''P1'', forecast_date = 1, predicted_demand = Some (Num 0),
                confidence_score = NaN, lower_bound = NaN, upper_bound = NaN,
                model_version = ''v1.0''\<rparr>],
            fb_avgSales = Num 0, fb_dataPoints = 7\<rparr>, 1)"
    by (simp add: controller_generateForecast_def m v horizon_def controllerForecastData_def Let_def
        createForecast_def randomFactor_def js_sub_def)
  from computed service row controller show ?thesis by simp
qed

text \<open>
  Claim C9 as stated fails: on a constant-zero series the service keeps the model that was
  asked for (there is no Naive model to fall back to) and the confidence score is
  \<^verbatim>\<open>NaN\<close>, not a low score; with the linear trend on a series of one day the point
  forecast and the bounds are \<^verbatim>\<open>NaN\<close> as well.
\<close>

theorem constant_zero_series_counterexample:
  "calculateConfidenceIntervals
      (exponentialSmoothing (exampleEnv (\<lambda>p. week 0) [] (\<lambda>k. 1 / 2))
         (aggregateDailySales (week 0)) 1 (3 / 10))
      (aggregateDailySales (week 0)) =
     [\<lparr>f_date = 1, f_predicted = Some (Num 0), f_confidence_score = NaN,
       f_lower_bound = Num 0, f_upper_bound = Num 0\<rparr>]
   \<and> calculateConfidenceIntervals
      (linearTrend (exampleEnv (\<lambda>p. rush 0) [] (\<lambda>k. 1 / 2)) (aggregateDailySales (rush 0)) 1)
      (aggregateDailySales (rush 0)) =
     [\<lparr>f_date = 1, f_predicted = Some NaN, f_confidence_score = NaN,
       f_lower_bound = NaN, f_upper_bound = NaN\<rparr>]
   \<and> generateForecast (exampleEnv (\<lambda>p. week 0) [] (\<lambda>k. 1 / 2)) 0 ''P1'' ''exponential_smoothing'' 1 =
     (Inr \<lparr>fr_productId = ''P1'', fr_model = ''exponential_smoothing'',
          fr_predictions =
            [\<lparr>row_product_id = ''P1'', forecast_date = 1, predicted_demand = Some (Num 0),
              confidence_score = NaN, lower_bound = Num 0, upper_bound = Num 0,
              model_version = ''exponential_smoothing''\<rparr>],
          fr_dataPoints = 7\<rparr>, 0)
   \<and> generateForecast (exampleEnv (\<lambda>p. rush 0) [] (\<lambda>k. 1 / 2)) 0 ''P1'' ''linear_trend'' 1 =
     (Inr \<lparr>fr_productId = ''P1'', fr_model = ''linear_trend'',
          fr_predictions =
            [\<lparr>row_product_id = ''P1'', forecast_date = 1, predicted_demand = Some NaN,
              confidence_score = NaN, lower_bound = NaN, upper_bound = NaN,
              model_version = ''linear_trend''\<rparr>],
          fr_dataPoints = 1\<rparr>, 0)"
proof -
  let ?env = "exampleEnv (\<lambda>p. week 0) [] (\<lambda>k. 1 / 2)"
  let ?days = "map (\<lambda>d. (d, 0)) [1, 2, 3, 4, 5, 6, 7 :: int]"
  have s: "getSalesData ?env ''P1'' 90 = Inr (week 0)"
    by simp
  have c: "callModel ?env 0 (forecastModel ''exponential_smoothing'') (aggregateDailySales (week 0)) 1
      = (Inr (Predictions [\<lparr>date = 1, predicted = Some (Num 0)\<rparr>]), 0)"
    by (simp add: callModel_def forecastModel_def models_def aggregate_week
        exponentialSmoothing_def quantities_def smooth_def js_sub_def horizon_def)
  have i: "calculateConfidenceIntervals [\<lparr>date = 1, predicted = Some (Num 0)\<rparr>] ?days =
      [\<lparr>f_date = 1, f_predicted = Some (Num 0), f_confidence_score = NaN,
        f_lower_bound = Num 0, f_upper_bound = Num 0\<rparr>]"
    by (simp add: calculateConfidenceIntervals_Num js_sub_def)
  have "generateForecast ?env 0 ''P1'' ''exponential_smoothing'' 1 =
     (Inr \<lparr>fr_productId = ''P1'', fr_model = ''exponential_smoothing'',
            fr_predictions = map (forecastData ''P1'' ''exponential_smoothing'')
               (calculateConfidenceIntervals [\<lparr>date = 1, predicted = Some (Num 0)\<rparr>]
                  (aggregateDailySales (week 0))),
            fr_dataPoints = length (aggregateDailySales (week 0))\<rparr>, 0)"
    by (rule generateForecast_eq [OF s _ c]) simp_all
  then have smoothing: "generateForecast ?env 0 ''P1'' ''exponential_smoothing'' 1 =
     (Inr \<lparr>fr_productId = ''P1'', fr_model = ''exponential_smoothing'',
          fr_predictions =
            [\<lparr>row_product_id = ''P1'', forecast_date = 1, predicted_demand = Some (Num 0),
              confidence_score = NaN, lower_bound = Num 0, upper_bound = Num 0,
              model_version = ''exponential_smoothing''\<rparr>],
          fr_dataPoints = 7\<rparr>, 0)"
    unfolding aggregate_week i by (simp add: forecastData_def)
  let ?env' = "exampleEnv (\<lambda>p. rush 0) [] (\<lambda>k. 1 / 2)"
  have s': "getSalesData ?env' ''P1'' 90 = Inr (rush 0)"
    by simp
  have c': "callModel ?env' 0 (forecastModel ''linear_trend'') (aggregateDailySales (rush 0)) 1
      = (Inr (Predictions [\<lparr>date = 1, predicted = Some NaN\<rparr>]), 0)"
    by (simp add: callModel_def forecastModel_def models_def aggregate_rush
        linearTrend_def quantities_def js_sum_def js_sub_def horizon_def)
  have i': "calculateConfidenceIntervals [\<lparr>date = 1, predicted = Some NaN\<rparr>] [(1, 0)] =
      [\<lparr>f_date = 1, f_predicted = Some NaN, f_confidence_score = NaN,
        f_lower_bound = NaN, f_upper_bound = NaN\<rparr>]"
    by (simp add: calculateConfidenceIntervals_Num js_sub_def)
  have "generateForecast ?env' 0 ''P1'' ''linear_trend'' 1 =
     (Inr \<lparr>fr_productId = ''P1'', fr_model = ''linear_trend'',
            fr_predictions = map (forecastData ''P1'' ''linear_trend'')
               (calculateConfidenceIntervals [\<lparr>date = 1, predicted = Some NaN\<rparr>]
                  (aggregateDailySales (rush 0))),
            fr_dataPoints = length (aggregateDailySales (rush 0))\<rparr>, 0)"
    by (rule generateForecast_eq [OF s' _ c']) simp_all
  then have trend: "generateForecast ?env' 0 ''P1'' ''linear_trend'' 1 =
     (Inr \<lparr>fr_productId = ''P1'', fr_model = ''linear_trend'',
          fr_predictions =
            [\<lparr>row_product_id = ''P1'', forecast_date = 1, predicted_demand = Some NaN,
              confidence_score = NaN, lower_bound = NaN, upper_bound = NaN,
              model_version = ''linear_trend''\<rparr>],
          fr_dataPoints = 1\<rparr>, 0)"
    unfolding aggregate_rush by (simp add: i' forecastData_def)
  have computed: "calculateConfidenceIntervals
      (exponentialSmoothing ?env (aggregateDailySales (week 0)) 1 (3 / 10))
      (aggregateDailySales (week 0)) =
     [\<lparr>f_date = 1, f_predicted = Some (Num 0), f_confidence_score = NaN,
       f_lower_bound = Num 0, f_upper_bound = Num 0\<rparr>]"
    using c i by (simp add: callModel_def forecastModel_def models_def aggregate_week)
  have computed': "calculateConfidenceIntervals
      (linearTrend ?env' (aggregateDailySales (rush 0)) 1) (aggregateDailySales (rush 0)) =
     [\<lparr>f_date = 1, f_predicted = Some NaN, f_confidence_score = NaN,
       f_lower_bound = NaN, f_upper_bound = NaN\<rparr>]"
    using c' i' by (simp add: callModel_def forecastModel_def models_def aggregate_rush)
  from computed computed' smoothing trend show ?thesis by simp
qed

text \<open>
  Claim C9, amended. For every product whose sales records (seven or more) all have the
  quantity 0, the service does not change the model: with the simple moving average (the
  default, and the substitute for an unknown name) or the exponential smoothing, the model
  call does not throw and the service computes \<open>days\<close> forecasts, each with the point
  forecast 0, the lower bound 0 and the upper bound 0; when the database accepts the
  inserts, these forecasts are returned under the model name that was asked for.
\<close>

theorem constant_zero_series_forecast:
  assumes "getSalesData env productId 90 = Inr salesData" and "7 \<le> length salesData"
    and "\<forall>s\<in>set salesData. quantity_sold s = 0"
    and "model \<notin> set objectPrototypeKeys" and "model \<noteq> ''linear_trend''"
  shows "\<exists>ps k'. callModel env k (forecastModel model) (aggregateDailySales salesData) days
                    = (Inr (Predictions ps), k')
           \<and> length (calculateConfidenceIntervals ps (aggregateDailySales salesData)) = days
           \<and> (\<forall>f\<in>set (calculateConfidenceIntervals ps (aggregateDailySales salesData)).
                 f_predicted f = Some (Num 0) \<and> f_lower_bound f = Num 0 \<and> f_upper_bound f = Num 0)
           \<and> ((\<forall>r. insert_fails env r = None) \<longrightarrow>
                 generateForecast env k productId model days =
                   (Inr \<lparr>fr_productId = productId, fr_model = model,
                          fr_predictions = map (forecastData productId model)
                             (calculateConfidenceIntervals ps (aggregateDailySales salesData)),
                          fr_dataPoints = length (aggregateDailySales salesData)\<rparr>, k'))"
proof -
  let ?ds = "aggregateDailySales salesData"
  let ?ps = "map (\<lambda>i. \<lparr>date = today env + int i, predicted = Some (Num 0)\<rparr>) (horizon days)"
  have "salesData \<noteq> []"
    using assms(2) by auto
  then have ne: "?ds \<noteq> []"
    by (rule aggregateDailySales_nonempty)
  have z: "amounts ?ds = replicate (length ?ds) 0"
    using assms(3) by (rule amounts_zero)
  have "\<exists>k'. callModel env k (forecastModel model) ?ds days = (Inr (Predictions ?ps), k')"
    using forecastModel_not_trend [OF assms(4,5)]
      simpleMovingAverage_zero [OF ne z, of env k days] exponentialSmoothing_zero [OF ne z, of env days]
    by (auto simp: callModel_def split: prod.splits)
  then obtain k' where c: "callModel env k (forecastModel model) ?ds days = (Inr (Predictions ?ps), k')"
    by blast
  have rows: "\<forall>f\<in>set (calculateConfidenceIntervals ?ps ?ds).
                f_predicted f = Some (Num 0) \<and> f_lower_bound f = Num 0 \<and> f_upper_bound f = Num 0"
    using calculateConfidenceIntervals_zero [OF ne z] by blast
  have saved: "generateForecast env k productId model days =
                   (Inr \<lparr>fr_productId = productId, fr_model = model,
                          fr_predictions = map (forecastData productId model)
                             (calculateConfidenceIntervals ?ps ?ds),
                          fr_dataPoints = length ?ds\<rparr>, k')"
    if "\<forall>r. insert_fails env r = None"
    using generateForecast_eq [OF assms(1,2) c that] .
  from c rows saved show ?thesis
    by (intro exI [of _ ?ps] exI [of _ k']) simp
qed

text \<open>Claim C9, amended, at seven records of quantity 0 and the model name \<^verbatim>\<open>Naive\<close>.\<close>

theorem constant_zero_series_forecast_witness:
  "\<exists>ps k'. callModel (exampleEnv (\<lambda>p. week 0) [] (\<lambda>k. 1 / 2)) 0 (forecastModel ''Naive'')
               (aggregateDailySales (week 0)) 14 = (Inr (Predictions ps), k')
     \<and> length (calculateConfidenceIntervals ps (aggregateDailySales (week 0))) = 14
     \<and> (\<forall>f\<in>set (calculateConfidenceIntervals ps (aggregateDailySales (week 0))).
           f_predicted f = Some (Num 0) \<and> f_lower_bound f = Num 0 \<and> f_upper_bound f = Num 0)
     \<and> generateForecast (exampleEnv (\<lambda>p. week 0) [] (\<lambda>k. 1 / 2)) 0 ''P1'' ''Naive'' 14 =
         (Inr \<lparr>fr_productId = ''P1'', fr_model = ''Naive'',
                fr_predictions = map (forecastData ''P1'' ''Naive'')
                   (calculateConfidenceIntervals ps (aggregateDailySales (week 0))),
                fr_dataPoints = 7\<rparr>, k')"
proof -
  have h1: "getSalesData (exampleEnv (\<lambda>p. week 0) [] (\<lambda>k. 1 / 2)) ''P1'' 90 = Inr (week 0)"
    by simp
  have h2: "7 \<le> length (week 0)"
    by simp
  have h3: "\<forall>s\<in>set (week 0). quantity_sold s = 0"
    by (simp add: week_def)
  have h4: "''Naive'' \<notin> set objectPrototypeKeys"
    by (simp add: objectPrototypeKeys_def)
  have h5: "''Naive'' \<noteq> ''linear_trend''"
    by simp
  from constant_zero_series_forecast [OF h1 h2 h3 h4 h5, of 0 14] show ?thesis
    by (simp add: length_aggregate_week)
qed

section \<open>Bulk generation\<close>

lemma generateBulkForecasts_append:
  "generateBulkForecasts env k (xs @ ys) model =
     (let (rs1, k1) = generateBulkForecasts env k xs model;
          (rs2, k2) = generateBulkForecasts env k1 ys model
      in (rs1 @ rs2, k2))"
  by (induction xs arbitrary: k) (simp_all add: Let_def split: prod.splits)

lemma generateBulkForecasts_all_succeed:
  assumes "\<forall>r. insert_fails env r = None" and "model \<notin> set objectPrototypeKeys"
    and "\<forall>p\<in>set ps. \<exists>rows. getSalesData env p 90 = Inr rows \<and> 7 \<le> length rows"
  shows "length (fst (generateBulkForecasts env k ps model)) = length ps
         \<and> (\<forall>e\<in>set (fst (generateBulkForecasts env k ps model)). success e)"
  using assms(3)
proof (induction ps arbitrary: k)
  case Nil
  then show ?case by simp
next
  case (Cons p ps)
  then obtain rows where r: "getSalesData env p 90 = Inr rows" "7 \<le> length rows"
    by auto
  from generateForecast_succeeds [OF r assms(2,1), of k 14]
  obtain res k1 where g: "generateForecast env k p model 14 = (Inr res, k1)"
    by (cases "generateForecast env k p model 14") auto
  obtain rs k2 where b: "generateBulkForecasts env k1 ps model = (rs, k2)"
    by (cases "generateBulkForecasts env k1 ps model")
  have "length rs = length ps \<and> (\<forall>e\<in>set rs. success e)"
    using Cons.IH [of k1] Cons.prems b by simp
  then show ?case
    by (simp add: g b)
qed

lemma bulkForecasts_ok:
  "\<forall>r. insert_fails env r = None \<Longrightarrow>
   bulkForecasts env k productId avgSales is = (None, k + length is)"
  by (induction "is" arbitrary: k) (simp_all add: createForecast_def)

text \<open>
  Claim C4 as stated fails: the controller's bulk generation passes over a product with
  fewer than five sales records and records nothing for it. With a product without
  records and a product with seven, the answer lists one successful entry and no failed
  or skipped one.
\<close>

theorem bulkGenerateForecasts_skip_counterexample:
  "bulkGenerateForecasts
     (exampleEnv (\<lambda>p. if p = ''Z'' then [] else week 10)
        [\<lparr>product_id = ''Z'', product_name = ''Zip'', product_sku = ''S0''\<rparr>,
         \<lparr>product_id = ''A'', product_name = ''Pen'', product_sku = ''S1''\<rparr>] (\<lambda>k. 1 / 2)) 0 14
   = (Json \<lparr>bb_total = 1, bb_successful = 1, bb_failed = 0,
            bb_results = [\<lparr>br_productId = ''A'', br_productName = ''Pen'', br_success = True,
                            br_error = None\<rparr>]\<rparr>, 14)"
  by (simp add: bulkGenerateForecasts_def getProducts_def bulkForecasts_ok)

text \<open>
  Claim C4, amended. For every batch given to \<^verbatim>\<open>ForecastService.generateBulkForecasts\<close>
  that holds one product without sales records and otherwise products with at least 7
  sales records each, with a model name that is not a property of \<^verbatim>\<open>Object.prototype\<close>
  and a database that accepts the inserts, the result has one successful entry for each
  of the other products and exactly one failed entry, the one of the product without
  records, with the message \<^verbatim>\<open>Insufficient historical data for forecasting\<close>. The
  function returns its list of entries in every case: the error of a product is caught
  and recorded in that product's entry.
\<close>

theorem generateBulkForecasts_resilient:
  assumes "\<forall>r. insert_fails env r = None" and "model \<notin> set objectPrototypeKeys"
    and "getSalesData env bad 90 = Inr []"
    and "\<forall>p\<in>set (before @ after). \<exists>rows. getSalesData env p 90 = Inr rows \<and> 7 \<le> length rows"
  shows "length (filter success (fst (generateBulkForecasts env k (before @ bad # after) model)))
           = length (before @ after)
       \<and> filter (\<lambda>e. \<not> success e) (fst (generateBulkForecasts env k (before @ bad # after) model))
           = [Failed bad ''Insufficient historical data for forecasting'']"
proof -
  obtain rs1 k1 where b: "generateBulkForecasts env k before model = (rs1, k1)"
    by (cases "generateBulkForecasts env k before model")
  obtain rs2 k2 where a: "generateBulkForecasts env k1 after model = (rs2, k2)"
    by (cases "generateBulkForecasts env k1 after model")
  have bad: "generateForecast env k1 bad model 14 =
               (Inl (Error ''Insufficient historical data for forecasting''), k1)"
    using assms(3) by (simp add: generateForecast_insufficient)
  have all: "fst (generateBulkForecasts env k (before @ bad # after) model)
               = rs1 @ Failed bad ''Insufficient historical data for forecasting'' # rs2"
    by (simp add: generateBulkForecasts_append b a bad)
  have s1: "length rs1 = length before \<and> (\<forall>e\<in>set rs1. success e)"
    using generateBulkForecasts_all_succeed [OF assms(1,2), of before k] assms(4) b by simp
  have s2: "length rs2 = length after \<and> (\<forall>e\<in>set rs2. success e)"
    using generateBulkForecasts_all_succeed [OF assms(1,2), of after k1] assms(4) a by simp
  show ?thesis
    unfolding all using s1 s2 by simp
qed

text \<open>Claim C4, amended, at a batch of three products, the second without records.\<close>

theorem generateBulkForecasts_resilient_witness:
  "length (filter success (fst (generateBulkForecasts
       (exampleEnv (\<lambda>p. if p = ''Z'' then [] else week 10) [] (\<lambda>k. 1 / 2)) 0
       [''A'', ''Z'', ''B''] ''simple_moving_average''))) = 2
   \<and> filter (\<lambda>e. \<not> success e) (fst (generateBulkForecasts
       (exampleEnv (\<lambda>p. if p = ''Z'' then [] else week 10) [] (\<lambda>k. 1 / 2)) 0
       [''A'', ''Z'', ''B''] ''simple_moving_average''))
     = [Failed ''Z'' ''Insufficient historical data for forecasting'']"
  using generateBulkForecasts_resilient
    [of "exampleEnv (\<lambda>p. if p = ''Z'' then [] else week 10) [] (\<lambda>k. 1 / 2)"
        "''simple_moving_average''" "''Z''" "[''A'']" "[''B'']" 0]
  by (simp add: objectPrototypeKeys_def)

section \<open>Randomness\<close>

lemma getSalesData_random [simp]:
  "getSalesData (env\<lparr>random := r\<rparr>) = getSalesData env"
  by (rule ext)+ (simp add: getSalesData_def)

lemma createForecast_random [simp]:
  "createForecast (env\<lparr>random := r\<rparr>) = createForecast env"
  by (rule ext) (simp add: createForecast_def)

lemma saveForecastToDatabase_random [simp]:
  "saveForecastToDatabase (env\<lparr>random := r\<rparr>) productId fs model
     = saveForecastToDatabase env productId fs model"
  by (induction fs) (simp_all split: sum.splits)

lemma exponentialSmoothing_random [simp]:
  "exponentialSmoothing (env\<lparr>random := r\<rparr>) = exponentialSmoothing env"
  by (rule ext)+ (simp add: exponentialSmoothing_def)

lemma linearTrend_random [simp]:
  "linearTrend (env\<lparr>random := r\<rparr>) = linearTrend env"
  by (rule ext)+ (simp add: linearTrend_def)

lemma simpleMovingAverage_random:
  assumes "\<forall>i<days. r (k + i) = random env (k + i)"
  shows "simpleMovingAverage (env\<lparr>random := r\<rparr>) k dailySales days window
           = simpleMovingAverage env k dailySales days window"
proof -
  have "r (k + i - 1) = random env (k + i - 1)" if "i \<in> set (horizon days)" for i
  proof -
    from that have "1 \<le> i" and "i \<le> days"
      by (simp_all add: set_horizon)
    then have "i - 1 < days" and "k + i - 1 = k + (i - 1)"
      by simp_all
    with assms show ?thesis by simp
  qed
  then show ?thesis
    by (simp add: simpleMovingAverage_def Let_def cong: map_cong)
qed

lemma callModel_random:
  assumes "\<forall>i<days. r (k + i) = random env (k + i)"
  shows "callModel (env\<lparr>random := r\<rparr>) k f dailySales days = callModel env k f dailySales days"
  by (cases f) (simp_all add: callModel_def simpleMovingAverage_random [OF assms])

lemma callModel_no_draw:
  assumes "f \<noteq> SimpleMovingAverage"
  shows "callModel (env\<lparr>random := r\<rparr>) k' f dailySales days
           = (fst (callModel env k f dailySales days), k')"
  using assms by (cases f) (simp_all add: callModel_def)

lemma controllerForecasts_random:
  assumes "\<forall>i<length is. r (k + i) = random env (k + i)"
  shows "controllerForecasts (env\<lparr>random := r\<rparr>) k productId avgSales volatility is
           = controllerForecasts env k productId avgSales volatility is"
  using assms
proof (induction "is" arbitrary: k)
  case Nil
  then show ?case by simp
next
  case (Cons i rest)
  have here: "r k = random env k"
    using Cons.prems by auto
  have "\<forall>j<length rest. r (Suc k + j) = random env (Suc k + j)"
    using Cons.prems by auto
  from Cons.IH [OF this] here show ?case
    by (simp add: controllerForecastData_def split: sum.splits prod.splits)
qed

text \<open>
  Claim C6 as stated fails: with the same sales history, clock, model and horizon, two
  runs of the simple moving average that see different values of \<^verbatim>\<open>Math.random\<close> return
  different point forecasts and bounds (95 and 104 for a history of constant 100).
\<close>

theorem generateForecast_random_counterexample:
  "generateForecast (exampleEnv (\<lambda>p. week 100) [] (\<lambda>j. 0)) 0 ''P1'' ''simple_moving_average'' 1 =
     (Inr \<lparr>fr_productId = ''P1'', fr_model = ''simple_moving_average'',
          fr_predictions =
            [\<lparr>row_product_id = ''P1'', forecast_date = 1, predicted_demand = Some (Num 95),
              confidence_score = Num (95 / 100), lower_bound = Num 95, upper_bound = Num 95,
              model_version = ''simple_moving_average''\<rparr>],
          fr_dataPoints = 7\<rparr>, 1)
   \<and> generateForecast (exampleEnv (\<lambda>p. week 100) [] (\<lambda>j. 9 / 10)) 0 ''P1'' ''simple_moving_average'' 1 =
     (Inr \<lparr>fr_productId = ''P1'', fr_model = ''simple_moving_average'',
          fr_predictions =
            [\<lparr>row_product_id = ''P1'', forecast_date = 1, predicted_demand = Some (Num 104),
              confidence_score = Num (95 / 100), lower_bound = Num 104, upper_bound = Num 104,
              model_version = ''simple_moving_average''\<rparr>],
          fr_dataPoints = 7\<rparr>, 1)"
proof -
  let ?days = "map (\<lambda>d. (d, 100)) [1, 2, 3, 4, 5, 6, 7 :: int]"
  have run: "generateForecast (exampleEnv (\<lambda>p. week 100) [] (\<lambda>j. x)) 0 ''P1'' ''simple_moving_average'' 1 =
     (Inr \<lparr>fr_productId = ''P1'', fr_model = ''simple_moving_average'',
          fr_predictions =
            [\<lparr>row_product_id = ''P1'', forecast_date = 1, predicted_demand = Some (Num y),
              confidence_score = Num (95 / 100), lower_bound = Num y, upper_bound = Num y,
              model_version = ''simple_moving_average''\<rparr>],
          fr_dataPoints = 7\<rparr>, 1)"
    if y: "max 0 (real_of_int \<lfloor>100 * (1 + (x - 1 / 2) * (1 / 10)) + 1 / 2\<rfloor>) = y" and "0 \<le> y" for x y
  proof -
    let ?env = "exampleEnv (\<lambda>p. week 100) [] (\<lambda>j. x)"
    have s: "getSalesData ?env ''P1'' 90 = Inr (week 100)"
      by simp
    have "simpleMovingAverage ?env 0 ?days 1 7 = ([\<lparr>date = 1, predicted = Some (Num y)\<rparr>], 1)"
      using y by (simp add: simpleMovingAverage_Num horizon_def)
    then have c: "callModel ?env 0 (forecastModel ''simple_moving_average'')
                    (aggregateDailySales (week 100)) 1
        = (Inr (Predictions [\<lparr>date = 1, predicted = Some (Num y)\<rparr>]), 1)"
      by (simp add: callModel_def forecastModel_def models_def aggregate_week)
    have i: "calculateConfidenceIntervals [\<lparr>date = 1, predicted = Some (Num y)\<rparr>] ?days =
        [\<lparr>f_date = 1, f_predicted = Some (Num y), f_confidence_score = Num (95 / 100),
          f_lower_bound = Num y, f_upper_bound = Num y\<rparr>]"
      using \<open>0 \<le> y\<close> by (simp add: calculateConfidenceIntervals_Num js_sub_def)
    have "generateForecast ?env 0 ''P1'' ''simple_moving_average'' 1 =
       (Inr \<lparr>fr_productId = ''P1'', fr_model = ''simple_moving_average'',
              fr_predictions = map (forecastData ''P1'' ''simple_moving_average'')
                 (calculateConfidenceIntervals [\<lparr>date = 1, predicted = Some (Num y)\<rparr>]
                    (aggregateDailySales (week 100))),
              fr_dataPoints = length (aggregateDailySales (week 100))\<rparr>, 1)"
      by (rule generateForecast_eq [OF s _ c]) simp_all
    then show ?thesis
      unfolding aggregate_week i by (simp add: forecastData_def)
  qed
  have "generateForecast (exampleEnv (\<lambda>p. week 100) [] (\<lambda>j. 0)) 0 ''P1'' ''simple_moving_average'' 1 =
     (Inr \<lparr>fr_productId = ''P1'', fr_model = ''simple_moving_average'',
          fr_predictions =
            [\<lparr>row_product_id = ''P1'', forecast_date = 1, predicted_demand = Some (Num 95),
              confidence_score = Num (95 / 100), lower_bound = Num 95, upper_bound = Num 95,
              model_version = ''simple_moving_average''\<rparr>],
          fr_dataPoints = 7\<rparr>, 1)"
    by (rule run) simp_all
  moreover
  have "generateForecast (exampleEnv (\<lambda>p. week 100) [] (\<lambda>j. 9 / 10)) 0 ''P1'' ''simple_moving_average'' 1 =
     (Inr \<lparr>fr_productId = ''P1'', fr_model = ''simple_moving_average'',
          fr_predictions =
            [\<lparr>row_product_id = ''P1'', forecast_date = 1, predicted_demand = Some (Num 104),
              confidence_score = Num (95 / 100), lower_bound = Num 104, upper_bound = Num 104,
              model_version = ''simple_moving_average''\<rparr>],
          fr_dataPoints = 7\<rparr>, 1)"
    by (rule run) simp_all
  ultimately show ?thesis by simp
qed

text \<open>
  Claim C6, amended. For a fixed sales history, clock, database, model choice and
  horizon, two runs of the service that see the same values of \<^verbatim>\<open>Math.random\<close> for
  their \<open>days\<close> draws return identical results, and so do two runs of the controller;
  with a model other than the simple moving average (exponential smoothing, linear trend)
  the result of the service is the same whatever \<^verbatim>\<open>Math.random\<close> returns.
\<close>

theorem generateForecast_deterministic:
  "((\<forall>i<days. r (k + i) = random env (k + i)) \<longrightarrow>
       generateForecast (env\<lparr>random := r\<rparr>) k productId model days
         = generateForecast env k productId model days
       \<and> controller_generateForecast (env\<lparr>random := r\<rparr>) k productId days
         = controller_generateForecast env k productId days)
   \<and> (forecastModel model \<noteq> SimpleMovingAverage \<longrightarrow>
       fst (generateForecast (env\<lparr>random := r\<rparr>) k' productId model days)
         = fst (generateForecast env k productId model days))"
proof (intro conjI impI)
  assume a: "\<forall>i<days. r (k + i) = random env (k + i)"
  show "generateForecast (env\<lparr>random := r\<rparr>) k productId model days
          = generateForecast env k productId model days"
    by (simp add: generateForecast_def callModel_random [OF a] Let_def
        split: sum.splits prod.splits model_result.splits)
  have "\<forall>i<length (horizon days). r (k + i) = random env (k + i)"
    using a by simp
  then show "controller_generateForecast (env\<lparr>random := r\<rparr>) k productId days
          = controller_generateForecast env k productId days"
    by (simp add: controller_generateForecast_def controllerForecasts_random Let_def
        split: sum.splits prod.splits option.splits)
next
  assume "forecastModel model \<noteq> SimpleMovingAverage"
  then show "fst (generateForecast (env\<lparr>random := r\<rparr>) k' productId model days)
          = fst (generateForecast env k productId model days)"
    by (simp add: generateForecast_def callModel_no_draw [where k = k and k' = k'] Let_def
        split: sum.splits prod.splits model_result.splits)
qed

text \<open>
  Claim C6, amended: two random sources that agree on the first 14 draws, with the simple
  moving average, and two that agree nowhere, with the exponential smoothing.
\<close>

theorem generateForecast_deterministic_witness:
  "generateForecast ((exampleEnv (\<lambda>p. week 100) [] (\<lambda>j. 0))\<lparr>random := \<lambda>j. if j < 14 then 0 else 9 / 10\<rparr>)
       0 ''P1'' ''simple_moving_average'' 14
     = generateForecast (exampleEnv (\<lambda>p. week 100) [] (\<lambda>j. 0)) 0 ''P1'' ''simple_moving_average'' 14
   \<and> fst (generateForecast ((exampleEnv (\<lambda>p. week 100) [] (\<lambda>j. 0))\<lparr>random := \<lambda>j. 9 / 10\<rparr>)
       5 ''P1'' ''exponential_smoothing'' 14)
     = fst (generateForecast (exampleEnv (\<lambda>p. week 100) [] (\<lambda>j. 0)) 0 ''P1''
         ''exponential_smoothing'' 14)"
  using generateForecast_deterministic
          [where env = "exampleEnv (\<lambda>p. week 100) [] (\<lambda>j. 0)"
             and r = "\<lambda>j. if j < 14 then 0 else 9 / 10" and k = 0 and days = 14
             and productId = "''P1''" and model = "''simple_moving_average''"]
        generateForecast_deterministic
          [where env = "exampleEnv (\<lambda>p. week 100) [] (\<lambda>j. 0)"
             and r = "\<lambda>j. 9 / 10" and k = 0 and k' = 5 and days = 14
             and productId = "''P1''" and model = "''exponential_smoothing''"]
  by (simp add: forecastModel_def models_def)

section \<open>The moving average\<close>

lemma length_wobble: "length wobble = 16"
  by (simp add: wobble_def)

lemma amounts_wobble:
  "amounts wobble = [120, 80, 120, 80, 100, 100, 100, 100, 100, 100, 100, 100, 100, 100, 100, 100]"
  by (simp add: wobble_def)

lemma sqrt_100: "sqrt 100 = 10"
proof -
  have "sqrt 100 = sqrt (10\<^sup>2)"
    by simp
  also have "\<dots> = 10"
    by simp
  finally show ?thesis .
qed

lemma mean_wobble: "mean (amounts wobble) = 100"
  unfolding amounts_wobble by simp

lemma stdDev_wobble: "stdDev (amounts wobble) = 10"
  unfolding amounts_wobble by (simp add: sqrt_100)

lemma trailing_wobble: "mean (drop (length wobble - 7) (amounts wobble)) = 100"
  unfolding amounts_wobble length_wobble by simp

lemma wobble_nonempty: "wobble \<noteq> []"
  by (simp add: wobble_def)

lemma horizon_2: "horizon 2 = [1, 2]"
  by (simp add: horizon_def numeral_2_eq_2)

lemma wobble_predictions:
  "fst (simpleMovingAverage (exampleEnv (\<lambda>p. []) [] (\<lambda>j. if j = 0 then 0 else 9 / 10)) 0 wobble 2 7)
     = [\<lparr>date = 1, predicted = Some (Num 95)\<rparr>, \<lparr>date = 2, predicted = Some (Num 104)\<rparr>]"
  unfolding simpleMovingAverage_Num [OF wobble_nonempty] trailing_wobble horizon_2
  by simp

lemma simpleMovingAverage_nth:
  assumes "dailySales \<noteq> []" and "i < days"
  shows "calculateConfidenceIntervals (fst (simpleMovingAverage env k dailySales days 7)) dailySales ! i
      = \<lparr>f_date = today env + int (Suc i),
         f_predicted = Some (Num (max 0 (real_of_int
            \<lfloor>mean (drop (length dailySales - 7) (amounts dailySales))
               * (1 + (random env (k + i) - 1 / 2) * (1 / 10)) + 1 / 2\<rfloor>))),
         f_confidence_score =
           js_min (Num (95 / 100))
             (js_max (Num (65 / 100))
                (js_sub (Num 1)
                   (js_mul (js_div (Num (stdDev (amounts dailySales))) (Num (mean (amounts dailySales))))
                           (Num (1 / 2))))),
         f_lower_bound =
           js_max (Num 0)
             (js_sub (Num (max 0 (real_of_int
                \<lfloor>mean (drop (length dailySales - 7) (amounts dailySales))
                   * (1 + (random env (k + i) - 1 / 2) * (1 / 10)) + 1 / 2\<rfloor>)))
                (Num (of_int \<lfloor>stdDev (amounts dailySales) * (196 / 100) + 1 / 2\<rfloor>))),
         f_upper_bound =
           js_add (Num (max 0 (real_of_int
                \<lfloor>mean (drop (length dailySales - 7) (amounts dailySales))
                   * (1 + (random env (k + i) - 1 / 2) * (1 / 10)) + 1 / 2\<rfloor>)))
             (Num (of_int \<lfloor>stdDev (amounts dailySales) * (196 / 100) + 1 / 2\<rfloor>))\<rparr>"
proof -
  have h: "horizon days ! i = Suc i"
    using assms(2) by (rule nth_horizon)
  show ?thesis
    unfolding calculateConfidenceIntervals_Num [OF assms(1)] simpleMovingAverage_Num [OF assms(1)]
    using assms(2) h by simp
qed

lemma rounded_near:
  fixes x :: real
  shows "\<bar>real_of_int \<lfloor>x + 1 / 2\<rfloor> - x\<bar> \<le> 1 / 2"
  by linarith

lemma trailing_mean_nonneg:
  assumes "\<forall>e\<in>set dailySales. 0 \<le> snd e"
  shows "0 \<le> mean (drop n (amounts dailySales))"
proof -
  have "\<forall>x\<in>set (drop n (amounts dailySales)). 0 \<le> x"
    using assms by (fastforce dest!: in_set_dropD)
  then have "0 \<le> sum_list (drop n (amounts dailySales))"
    by (intro sum_list_nonneg) simp
  then show ?thesis
    by simp
qed

lemma point_envelope:
  fixes m r :: real
  assumes "0 \<le> m" and "0 \<le> r" and "r < 1"
  defines "p \<equiv> max 0 \<lfloor>m * (1 + (r - 1 / 2) * (1 / 10)) + 1 / 2\<rfloor>"
  shows "m * (9 / 10) - 1 \<le> real_of_int p" and "real_of_int p \<le> m * (11 / 10) + 1"
proof -
  let ?f = "1 + (r - 1 / 2) * (1 / 10)"
  have f1: "9 / 10 \<le> ?f" and f2: "?f \<le> 11 / 10"
    using assms(2,3) by (simp_all add: field_simps)
  have lo: "m * (9 / 10) \<le> m * ?f"
    using f1 assms(1) by (rule mult_left_mono)
  have hi: "m * ?f \<le> m * (11 / 10)"
    using f2 assms(1) by (rule mult_left_mono)
  have near: "\<bar>real_of_int \<lfloor>m * ?f + 1 / 2\<rfloor> - m * ?f\<bar> \<le> 1 / 2"
    by (rule rounded_near)
  have "real_of_int \<lfloor>m * ?f + 1 / 2\<rfloor> \<le> real_of_int p"
    unfolding p_def by simp
  with lo near show "m * (9 / 10) - 1 \<le> real_of_int p"
    by linarith
  have "0 \<le> m * (11 / 10) + 1"
    using assms(1) by simp
  moreover have "real_of_int \<lfloor>m * ?f + 1 / 2\<rfloor> \<le> m * (11 / 10) + 1"
    using hi near by linarith
  ultimately show "real_of_int p \<le> m * (11 / 10) + 1"
    unfolding p_def by (simp add: max_def)
qed

text \<open>
  Claim C8 as stated fails. On a series whose last seven values are all 100, with the
  draws 0 and 0.9, the two forecast points are 95 and 104: the forecast is not flat and no
  point equals the trailing mean 100. The interval is 20 wide on each side, from the
  standard deviation 10 of the whole series, although the trailing window has no spread.
\<close>

theorem simpleMovingAverage_not_flat_counterexample:
  "calculateConfidenceIntervals
      (fst (simpleMovingAverage (exampleEnv (\<lambda>p. []) [] (\<lambda>j. if j = 0 then 0 else 9 / 10)) 0 wobble 2 7))
      wobble =
     [\<lparr>f_date = 1, f_predicted = Some (Num 95), f_confidence_score = Num (95 / 100),
       f_lower_bound = Num 75, f_upper_bound = Num 115\<rparr>,
      \<lparr>f_date = 2, f_predicted = Some (Num 104), f_confidence_score = Num (95 / 100),
       f_lower_bound = Num 84, f_upper_bound = Num 124\<rparr>]"
  unfolding wobble_predictions calculateConfidenceIntervals_Num [OF wobble_nonempty] stdDev_wobble
  unfolding mean_wobble
  by (simp add: js_sub_def)

text \<open>
  Claim C8, amended. For every non-empty daily series as the service builds it (at most
  90 days, every daily total a whole number between 0 and \<open>90 * 2^31\<close>), every horizon
  and every forecast day, the point forecast \<open>p\<close> of the moving average is a whole number,
  not below 0, within a tenth of the mean \<open>m\<close> of the last seven values of the series (of
  all values when there are fewer), up to the rounding: \<open>0.9 * m - 1 \<le> p \<le> 1.1 * m + 1\<close>.
  The interval is \<open>p - w\<close>, not below 0, to \<open>p + w\<close> for a whole number \<open>w \<ge> 0\<close> within
  1 of \<open>1.96 * s\<close>, where \<open>s\<close> is the population standard deviation of the whole daily
  series. The bounds on the series keep every intermediate value far inside the range in
  which the rounding error of the doubles is smaller than the slack of the statement, and
  sums of \<open>p\<close> and \<open>w\<close> exact.
\<close>

theorem simpleMovingAverage_forecast:
  assumes "dailySales \<noteq> []" and "length dailySales \<le> 90"
    and "\<forall>e\<in>set dailySales. 0 \<le> snd e \<and> snd e \<le> 90 * 2 ^ 31"
    and "i < days" and "0 \<le> random env (k + i)" and "random env (k + i) < 1"
  shows "\<exists>p w :: int.
           0 \<le> p \<and> 0 \<le> w
         \<and> f_predicted (calculateConfidenceIntervals
               (fst (simpleMovingAverage env k dailySales days 7)) dailySales ! i)
             = Some (Num (of_int p))
         \<and> f_lower_bound (calculateConfidenceIntervals
               (fst (simpleMovingAverage env k dailySales days 7)) dailySales ! i)
             = Num (of_int (max 0 (p - w)))
         \<and> f_upper_bound (calculateConfidenceIntervals
               (fst (simpleMovingAverage env k dailySales days 7)) dailySales ! i)
             = Num (of_int (p + w))
         \<and> mean (drop (length dailySales - 7) (amounts dailySales)) * (9 / 10) - 1 \<le> of_int p
         \<and> of_int p \<le> mean (drop (length dailySales - 7) (amounts dailySales)) * (11 / 10) + 1
         \<and> \<bar>of_int w - stdDev (amounts dailySales) * (196 / 100)\<bar> \<le> 1"
proof -
  let ?m = "mean (drop (length dailySales - 7) (amounts dailySales))"
  let ?s = "stdDev (amounts dailySales)"
  define p where "p = max 0 \<lfloor>?m * (1 + (random env (k + i) - 1 / 2) * (1 / 10)) + 1 / 2\<rfloor>"
  define w where "w = \<lfloor>?s * (196 / 100) + 1 / 2\<rfloor>"
  have m: "0 \<le> ?m"
    using assms(3) by (intro trailing_mean_nonneg) simp
  have "0 \<le> ?s"
    by (intro real_sqrt_ge_zero divide_nonneg_nonneg sum_list_nonneg) auto
  then have "0 \<le> ?s * (196 / 100) + 1 / 2"
    by simp
  then have w0: "0 \<le> w"
    unfolding w_def by simp
  have p0: "0 \<le> p"
    unfolding p_def by simp
  have pr: "max 0 (real_of_int \<lfloor>?m * (1 + (random env (k + i) - 1 / 2) * (1 / 10)) + 1 / 2\<rfloor>)
              = real_of_int p"
    unfolding p_def by (simp add: max_def)
  have wr: "real_of_int \<lfloor>?s * (196 / 100) + 1 / 2\<rfloor> = real_of_int w"
    unfolding w_def by simp
  have nth: "calculateConfidenceIntervals (fst (simpleMovingAverage env k dailySales days 7)) dailySales ! i
      = \<lparr>f_date = today env + int (Suc i),
         f_predicted = Some (Num (real_of_int p)),
         f_confidence_score =
           js_min (Num (95 / 100))
             (js_max (Num (65 / 100))
                (js_sub (Num 1)
                   (js_mul (js_div (Num ?s) (Num (mean (amounts dailySales)))) (Num (1 / 2))))),
         f_lower_bound = js_max (Num 0) (js_sub (Num (real_of_int p)) (Num (real_of_int w))),
         f_upper_bound = js_add (Num (real_of_int p)) (Num (real_of_int w))\<rparr>"
    unfolding simpleMovingAverage_nth [OF assms(1,4)] pr wr ..
  have env: "?m * (9 / 10) - 1 \<le> real_of_int p" "real_of_int p \<le> ?m * (11 / 10) + 1"
    unfolding p_def using point_envelope [OF m assms(5,6)] by simp_all
  have near: "\<bar>real_of_int w - ?s * (196 / 100)\<bar> \<le> 1"
    unfolding w_def using rounded_near [of "?s * (196 / 100)"] by linarith
  have lower: "js_max (Num 0) (js_sub (Num (real_of_int p)) (Num (real_of_int w)))
                 = Num (real_of_int (max 0 (p - w)))"
    by (simp add: js_sub_def max_def)
  have upper: "js_add (Num (real_of_int p)) (Num (real_of_int w)) = Num (real_of_int (p + w))"
    by simp
  show ?thesis
    using p0 w0 env near by (intro exI [of _ p] exI [of _ w]) (simp add: nth lower upper)
qed

text \<open>
  Claim C8, amended, at the second forecast day of the sixteen-day series (trailing mean
  100, standard deviation 10), with the draw 0.9.
\<close>

theorem simpleMovingAverage_forecast_witness:
  "\<exists>p w :: int.
     0 \<le> p \<and> 0 \<le> w
   \<and> f_predicted (calculateConfidenceIntervals
         (fst (simpleMovingAverage (exampleEnv (\<lambda>p. []) [] (\<lambda>j. if j = 0 then 0 else 9 / 10))
                 0 wobble 2 7)) wobble ! 1)
       = Some (Num (of_int p))
   \<and> f_lower_bound (calculateConfidenceIntervals
         (fst (simpleMovingAverage (exampleEnv (\<lambda>p. []) [] (\<lambda>j. if j = 0 then 0 else 9 / 10))
                 0 wobble 2 7)) wobble ! 1)
       = Num (of_int (max 0 (p - w)))
   \<and> f_upper_bound (calculateConfidenceIntervals
         (fst (simpleMovingAverage (exampleEnv (\<lambda>p. []) [] (\<lambda>j. if j = 0 then 0 else 9 / 10))
                 0 wobble 2 7)) wobble ! 1)
       = Num (of_int (p + w))
   \<and> 89 \<le> p \<and> p \<le> 111 \<and> 19 \<le> w \<and> w \<le> 20"
proof -
  have "\<forall>e\<in>set wobble. 0 \<le> snd e \<and> snd e \<le> 90 * 2 ^ 31"
    by (simp add: wobble_def)
  from simpleMovingAverage_forecast
         [of wobble 1 2 "exampleEnv (\<lambda>p. []) [] (\<lambda>j. if j = 0 then 0 else 9 / 10)" 0,
          OF wobble_nonempty _ this]
  obtain p w :: int where
    "0 \<le> p" "0 \<le> w"
    "f_predicted (calculateConfidenceIntervals
         (fst (simpleMovingAverage (exampleEnv (\<lambda>p. []) [] (\<lambda>j. if j = 0 then 0 else 9 / 10))
                 0 wobble 2 7)) wobble ! 1) = Some (Num (of_int p))"
    "f_lower_bound (calculateConfidenceIntervals
         (fst (simpleMovingAverage (exampleEnv (\<lambda>p. []) [] (\<lambda>j. if j = 0 then 0 else 9 / 10))
                 0 wobble 2 7)) wobble ! 1) = Num (of_int (max 0 (p - w)))"
    "f_upper_bound (calculateConfidenceIntervals
         (fst (simpleMovingAverage (exampleEnv (\<lambda>p. []) [] (\<lambda>j. if j = 0 then 0 else 9 / 10))
                 0 wobble 2 7)) wobble ! 1) = Num (of_int (p + w))"
    and b: "mean (drop (length wobble - 7) (amounts wobble)) * (9 / 10) - 1 \<le> of_int p"
      "of_int p \<le> mean (drop (length wobble - 7) (amounts wobble)) * (11 / 10) + 1"
      "\<bar>of_int w - stdDev (amounts wobble) * (196 / 100)\<bar> \<le> 1"
    by (auto simp: length_wobble)
  moreover from b have "89 \<le> p \<and> p \<le> 111 \<and> 19 \<le> w \<and> w \<le> 20"
    unfolding trailing_wobble stdDev_wobble by (simp add: abs_le_iff)
  ultimately show ?thesis
    by blast
qed

end
